theory Spec2Isabelle
  imports Main
begin

section \<open>JavaScript values used by the ingestion service\<close>

text \<open>
  The service is a Node.js program (\<^verbatim>\<open>generic_gsheet_ingestor.js\<close>). Its strings are
  modelled as \<^typ>\<open>string\<close>, one \<^typ>\<open>char\<close> per code unit, which covers every string whose
  code units are below 256. Numbers are modelled as mathematical integers together with
  \<open>NaN\<close>: every number the scheduling code computes is an integer (a time value in
  milliseconds, a count of minutes, a parsed decimal integer), and the model is exact as
  long as those integers stay in the range that a double represents exactly.
\<close>

datatype jsnum = NaN | Finite int

text \<open>
  A configuration value as \<^verbatim>\<open>checkSetup\<close> can produce it: \<^verbatim>\<open>undefined\<close>, a cell's
  string, or an array of rows that was not flattened.
\<close>

datatype jsval = Undefined | Str string | Arr "string list list"

fun join :: "string \<Rightarrow> string list \<Rightarrow> string" where
  "join sep [] = []"
| "join sep [x] = x"
| "join sep (x # y # ys) = x @ sep @ join sep (y # ys)"

text \<open>\<^verbatim>\<open>ToString\<close>: an array prints its elements separated by commas.\<close>

fun toStr :: "jsval \<Rightarrow> string" where
  "toStr Undefined = ''undefined''"
| "toStr (Str s) = s"
| "toStr (Arr rows) = join '','' (map (join '','') rows)"

text \<open>Arithmetic and comparison of numbers; every operation with \<open>NaN\<close> gives \<open>NaN\<close> or false.\<close>

fun jssub :: "jsnum \<Rightarrow> jsnum \<Rightarrow> jsnum" where
  "jssub (Finite a) (Finite b) = Finite (a - b)"
| "jssub _ _ = NaN"

fun jsmul :: "jsnum \<Rightarrow> jsnum \<Rightarrow> jsnum" where
  "jsmul (Finite a) (Finite b) = Finite (a * b)"
| "jsmul _ _ = NaN"

text \<open>\<^verbatim>\<open>Math.floor(x / d)\<close> for a positive constant \<open>d\<close>.\<close>

fun floorDiv :: "jsnum \<Rightarrow> int \<Rightarrow> jsnum" where
  "floorDiv (Finite a) d = Finite (a div d)"
| "floorDiv NaN d = NaN"

text \<open>
  The remainder operator \<^verbatim>\<open>%\<close>: the result takes the sign of the dividend, and a zero
  divisor gives \<open>NaN\<close>.
\<close>

fun jsrem :: "jsnum \<Rightarrow> jsnum \<Rightarrow> jsnum" where
  "jsrem (Finite a) (Finite b) =
     (if b = 0 then NaN else Finite (sgn a * (\<bar>a\<bar> mod \<bar>b\<bar>)))"
| "jsrem _ _ = NaN"

fun jsge :: "jsnum \<Rightarrow> jsnum \<Rightarrow> bool" where
  "jsge (Finite a) (Finite b) = (b \<le> a)"
| "jsge _ _ = False"

text \<open>Strict equality \<^verbatim>\<open>===\<close> on numbers: \<open>NaN\<close> is not equal to itself.\<close>

fun jsseq :: "jsnum \<Rightarrow> jsnum \<Rightarrow> bool" where
  "jsseq (Finite a) (Finite b) = (a = b)"
| "jsseq _ _ = False"

subsection \<open>parseInt with radix 10\<close>

definition isWhiteSpace :: "char \<Rightarrow> bool" where
  "isWhiteSpace c = (of_char c \<in> {9, 10, 11, 12, 13, 32, 160 :: nat})"

definition isDigit :: "char \<Rightarrow> bool" where
  "isDigit c = (48 \<le> (of_char c :: nat) \<and> (of_char c :: nat) \<le> 57)"

definition digitVal :: "char \<Rightarrow> int" where
  "digitVal c = int (of_char c) - 48"

fun digitsVal :: "int \<Rightarrow> string \<Rightarrow> int" where
  "digitsVal acc [] = acc"
| "digitsVal acc (c # cs) = digitsVal (10 * acc + digitVal c) cs"

definition parseInt :: "string \<Rightarrow> jsnum" where
  "parseInt inputString =
     (let S = dropWhile isWhiteSpace inputString;
          sign = (case S of c # _ \<Rightarrow> if c = CHR ''-'' then - 1 else 1 | [] \<Rightarrow> (1::int));
          S' = (case S of c # cs \<Rightarrow> if c = CHR ''-'' \<or> c = CHR ''+'' then cs else S | [] \<Rightarrow> S);
          Z = takeWhile isDigit S'
      in if Z = [] then NaN else Finite (sign * digitsVal 0 Z))"

subsection \<open>Dates\<close>

text \<open>
  A \<^verbatim>\<open>Date\<close> is its time value: milliseconds since the epoch, or \<open>NaN\<close> for an invalid
  date. Two things belong to the runtime and not to the program: how a string is parsed
  into a date, and the offset of the local time zone (the program sets
  \<^verbatim>\<open>process.env.TZ = 'Europe/Berlin'\<close>). Both are parameters of the model.
\<close>

record jsenv =
  dateParse :: "string \<Rightarrow> jsnum"
  localTZA :: "int \<Rightarrow> int"

text \<open>\<^verbatim>\<open>new Date(v)\<close> for a configuration value.\<close>

fun newDate :: "jsenv \<Rightarrow> jsval \<Rightarrow> jsnum" where
  "newDate env Undefined = NaN"
| "newDate env v = dateParse env (toStr v)"

definition msPerDay :: int where "msPerDay = 86400000"

definition DayNumber :: "int \<Rightarrow> int" where
  "DayNumber t = t div msPerDay"

definition DayFromYear :: "int \<Rightarrow> int" where
  "DayFromYear y =
     365 * (y - 1970) + (y - 1969) div 4 - (y - 1901) div 100 + (y - 1601) div 400"

text \<open>
  The year of a day number: the largest \<open>y\<close> with \<open>DayFromYear y \<le> d\<close>, found from an
  estimate that is off by at most one.
\<close>

definition YearFromDay :: "int \<Rightarrow> int" where
  "YearFromDay d =
     (let y = 1970 + (400 * d) div 146097
      in if d < DayFromYear y then y - 1
         else if DayFromYear (y + 1) \<le> d then y + 1
         else y)"

definition InLeapYear :: "int \<Rightarrow> int" where
  "InLeapYear y = DayFromYear (y + 1) - DayFromYear y - 365"

definition DateFromTime :: "int \<Rightarrow> int" where
  "DateFromTime t =
     (let y = YearFromDay (DayNumber t);
          dwy = DayNumber t - DayFromYear y;
          l = InLeapYear y
      in if dwy < 31 then dwy + 1
         else if dwy < 59 + l then dwy - 30
         else if dwy < 90 + l then dwy - 58 - l
         else if dwy < 120 + l then dwy - 89 - l
         else if dwy < 151 + l then dwy - 119 - l
         else if dwy < 181 + l then dwy - 150 - l
         else if dwy < 212 + l then dwy - 180 - l
         else if dwy < 243 + l then dwy - 211 - l
         else if dwy < 273 + l then dwy - 242 - l
         else if dwy < 304 + l then dwy - 272 - l
         else if dwy < 334 + l then dwy - 303 - l
         else dwy - 333 - l)"

definition HourFromTime :: "int \<Rightarrow> int" where
  "HourFromTime t = (t div 3600000) mod 24"

definition MinFromTime :: "int \<Rightarrow> int" where
  "MinFromTime t = (t div 60000) mod 60"

definition LocalTime :: "jsenv \<Rightarrow> int \<Rightarrow> int" where
  "LocalTime env t = t + localTZA env t"

fun getDate :: "jsenv \<Rightarrow> jsnum \<Rightarrow> jsnum" where
  "getDate env NaN = NaN"
| "getDate env (Finite t) = Finite (DateFromTime (LocalTime env t))"

fun getHours :: "jsenv \<Rightarrow> jsnum \<Rightarrow> jsnum" where
  "getHours env NaN = NaN"
| "getHours env (Finite t) = Finite (HourFromTime (LocalTime env t))"

fun getMinutes :: "jsenv \<Rightarrow> jsnum \<Rightarrow> jsnum" where
  "getMinutes env NaN = NaN"
| "getMinutes env (Finite t) = Finite (MinFromTime (LocalTime env t))"

section \<open>The schedule check\<close>

text \<open>The configuration object that \<^verbatim>\<open>checkSetup\<close> assembles, one field per named range.\<close>

record Setup =
  metadata_range :: jsval
  data_range :: jsval
  table_name :: jsval
  drop_table :: jsval
  first_ingestion :: jsval
  ingestion_type :: jsval
  frequency_unit :: jsval
  frequency_value :: jsval

text \<open>
  The table \<^verbatim>\<open>minutesPerUnit\<close>. A key that is not in the table reads as \<^verbatim>\<open>undefined\<close>
  (or as a member inherited from \<^verbatim>\<open>Object.prototype\<close>, which is a function or an object);
  multiplying either by a number gives \<open>NaN\<close>, which is what \<open>None\<close> stands for.
\<close>

definition minutesPerUnit :: "string \<rightharpoonup> int" where
  "minutesPerUnit =
     [''Minute'' \<mapsto> 1, ''Hour'' \<mapsto> 60, ''Day'' \<mapsto> 1440, ''Week'' \<mapsto> 10080]"

definition numOfLookup :: "int option \<Rightarrow> jsnum" where
  "numOfLookup r = (case r of None \<Rightarrow> NaN | Some n \<Rightarrow> Finite n)"

definition shouldTriggerIngestion :: "jsenv \<Rightarrow> Setup \<Rightarrow> jsnum \<Rightarrow> bool" where
  "shouldTriggerIngestion env su processID =
     (if ingestion_type su = Str ''Manual'' then False
      else
        let firstIngestionDate = newDate env (first_ingestion su);
            frequencyValue = parseInt (toStr (frequency_value su))
        in if frequency_unit su = Str ''Month'' then
             jsseq (getDate env processID) (getDate env firstIngestionDate) \<and>
             jsseq (getHours env processID) (getHours env firstIngestionDate) \<and>
             jsseq (getMinutes env processID) (getMinutes env firstIngestionDate)
           else
             let timeDifference = floorDiv (jssub processID firstIngestionDate) (1000 * 60);
                 unitMinutes =
                   jsmul (numOfLookup (minutesPerUnit (toStr (frequency_unit su))))
                     frequencyValue
             in jsge timeDifference (Finite 0) \<and>
                jsseq (jsrem timeDifference unitMinutes) (Finite 0))"

subsection \<open>The schedule as the specification words it\<close>

text \<open>
  The typed configuration of the specification (the four fields the schedule reads) and
  its decision function \<open>isDue\<close>, written from the specification's words, to be compared
  with \<open>shouldTriggerIngestion\<close> from the code. \<open>unitMinutes\<close> is given for the four
  units the specification lists.
\<close>

datatype IngestionType = Automatic | Manual

datatype FrequencyUnit = Minute | Hour | Day | Week | Month

record SourceConfig =
  firstIngestion :: int
  ingestionType :: IngestionType
  frequencyUnit :: FrequencyUnit
  frequencyValue :: int

fun unitMinutes :: "FrequencyUnit \<Rightarrow> int" where
  "unitMinutes Minute = 1"
| "unitMinutes Hour = 60"
| "unitMinutes Day = 1440"
| "unitMinutes Week = 10080"

fun unitName :: "FrequencyUnit \<Rightarrow> string" where
  "unitName Minute = ''Minute''"
| "unitName Hour = ''Hour''"
| "unitName Day = ''Day''"
| "unitName Week = ''Week''"
| "unitName Month = ''Month''"

definition isDue :: "jsenv \<Rightarrow> SourceConfig \<Rightarrow> int \<Rightarrow> bool" where
  "isDue env config processId =
     (if ingestionType config = Manual then False
      else if frequencyUnit config = Month then
        DateFromTime (LocalTime env processId) =
          DateFromTime (LocalTime env (firstIngestion config)) \<and>
        HourFromTime (LocalTime env processId) =
          HourFromTime (LocalTime env (firstIngestion config)) \<and>
        MinFromTime (LocalTime env processId) =
          MinFromTime (LocalTime env (firstIngestion config))
      else
        let delta = (processId - firstIngestion config) div 60000;
            periodMinutes = frequencyValue config * unitMinutes (frequencyUnit config)
        in delta \<ge> 0 \<and> delta mod periodMinutes = 0)"

text \<open>
  When a configuration object read from a sheet stands for a typed configuration: the
  strings decode to the typed fields, with a positive frequency value as the data model
  requires.
\<close>

definition represents :: "jsenv \<Rightarrow> Setup \<Rightarrow> SourceConfig \<Rightarrow> bool" where
  "represents env su config \<longleftrightarrow>
     (ingestionType config = Manual) = (ingestion_type su = Str ''Manual'') \<and>
     frequency_unit su = Str (unitName (frequencyUnit config)) \<and>
     parseInt (toStr (frequency_value su)) = Finite (frequencyValue config) \<and>
     0 < frequencyValue config \<and>
     newDate env (first_ingestion su) = Finite (firstIngestion config)"

section \<open>Reading and checking a sheet's configuration\<close>

datatype error = DatabaseError nat | TransportFailure | TypeError

text \<open>
  The spreadsheet service, as the program uses it: the names of a document's named ranges
  (\<^verbatim>\<open>spreadsheets.get\<close>), the values of several ranges at once (\<^verbatim>\<open>values.batchGet\<close>),
  the values of one range (\<^verbatim>\<open>values.get\<close>) and the list of documents (\<^verbatim>\<open>files.list\<close>,
  as identifier and name). A range's \<^verbatim>\<open>values\<close> are rows of cell strings, or absent when
  the range is empty. Every call can fail.
\<close>

type_synonym row = "string list"

record sheetsApi =
  namedRangesOf :: "string \<Rightarrow> error + string list"
  batchGet :: "string \<Rightarrow> string list \<Rightarrow> error + row list option list"
  valuesGet :: "string \<Rightarrow> string \<Rightarrow> error + row list option"
  filesList :: "error + (string \<times> string) list"

definition rangeNames :: "string list" where
  "rangeNames =
     [''metadata_range'', ''data_range'', ''table_name'', ''drop_table'',
      ''first_ingestion'', ''ingestion_type'', ''frequency_unit'', ''frequency_value'']"

definition setupScoped :: "string \<Rightarrow> string" where
  "setupScoped rangeName = [CHR 0x27] @ ''Setup'' @ [CHR 0x27] @ ''!'' @ rangeName"

definition findRange :: "string list \<Rightarrow> string \<Rightarrow> string option" where
  "findRange namedRanges rangeName =
     find (\<lambda>name. name = rangeName \<or> name = setupScoped rangeName) namedRanges"

text \<open>The loop over \<open>rangeNames\<close> that fills \<open>foundRanges\<close> and \<open>missingRanges\<close>.\<close>

fun scanRanges :: "string list \<Rightarrow> string list \<Rightarrow> string list \<times> string list" where
  "scanRanges namedRanges [] = ([], [])"
| "scanRanges namedRanges (rangeName # rest) =
     (let (foundRanges, missingRanges) = scanRanges namedRanges rest
      in case findRange namedRanges rangeName of
           Some name \<Rightarrow> (name # foundRanges, missingRanges)
         | None \<Rightarrow> (foundRanges, rangeName # missingRanges))"

text \<open>
  A fetched value that is an array whose first element is an array is replaced by its
  first cell; reading the first cell of an empty row gives \<^verbatim>\<open>undefined\<close>.
\<close>

fun flatten :: "row list option \<Rightarrow> jsval" where
  "flatten None = Undefined"
| "flatten (Some []) = Arr []"
| "flatten (Some ([] # rest)) = Undefined"
| "flatten (Some ((c # cs) # rest)) = Str c"

definition nthOr :: "jsval list \<Rightarrow> nat \<Rightarrow> jsval" where
  "nthOr xs i = (if i < length xs then xs ! i else Undefined)"

definition setupOf :: "jsval list \<Rightarrow> Setup" where
  "setupOf namedRangesValues =
     \<lparr> metadata_range = nthOr namedRangesValues 0,
       data_range = nthOr namedRangesValues 1,
       table_name = nthOr namedRangesValues 2,
       drop_table = nthOr namedRangesValues 3,
       first_ingestion = nthOr namedRangesValues 4,
       ingestion_type = nthOr namedRangesValues 5,
       frequency_unit = nthOr namedRangesValues 6,
       frequency_value = nthOr namedRangesValues 7 \<rparr>"

text \<open>The test of \<open>hasEmptyValue\<close>; a cell string is never \<^verbatim>\<open>null\<close>.\<close>

definition isEmptyValue :: "jsval \<Rightarrow> bool" where
  "isEmptyValue element = (element = Str '''' \<or> element = Undefined)"

text \<open>
  \<open>checkSetup\<close> returns the pair of \<open>setup\<close> and \<open>validSetup\<close>; \<open>setup\<close> is declared inside
  the branch that reads the values, so it is \<^verbatim>\<open>undefined\<close> (\<open>None\<close>) on the other branch.
  An error of either request is thrown again.
\<close>

definition checkSetup :: "sheetsApi \<Rightarrow> string \<Rightarrow> error + (Setup option \<times> bool)" where
  "checkSetup sheets sheetID =
     (case namedRangesOf sheets sheetID of
        Inl e \<Rightarrow> Inl e
      | Inr namedRanges \<Rightarrow>
          (let (foundRanges, missingRanges) = scanRanges namedRanges rangeNames
           in if missingRanges = [] then
                (case batchGet sheets sheetID foundRanges of
                   Inl e \<Rightarrow> Inl e
                 | Inr fetched \<Rightarrow>
                     (let namedRangesValues = map flatten fetched;
                          su = setupOf namedRangesValues;
                          hasEmptyValue = list_ex isEmptyValue namedRangesValues
                      in if hasEmptyValue then Inr (Some su, False)
                         else Inr (Some su, True)))
              else Inr (None, False)))"

definition setupFields :: "Setup \<Rightarrow> jsval list" where
  "setupFields su =
     [metadata_range su, data_range su, table_name su, drop_table su,
      first_ingestion su, ingestion_type su, frequency_unit su, frequency_value su]"

section \<open>The database and the console\<close>

text \<open>
  The relational store, as the program uses it through one pooled connection at a time:
  statements with positional parameters and transaction boundaries. A table has column
  definitions and rows. The audit log is one of the tables,
  \<open>raw_gsheets.gsheet_ingestion_log\<close>, in the schema of the target tables; a row of a
  table is therefore a data row or a log entry.
\<close>

datatype category = info | err

datatype description =
    TableCreated string
  | TableCreationFailed string
  | TableRepopulated string nat nat
  | TableIngestionFailed string

text \<open>
  A row of the log table. The time of writing (\<^verbatim>\<open>log_entry_timestamp\<close>) comes from the
  wall clock and is left out.
\<close>

record log_entry =
  gsheet_id :: string
  process_id :: int
  log_entry_desc :: description
  log_entry_category :: category
  err_message :: "error option"

datatype dbrow = DataRow row | LogRow log_entry

record table =
  columns :: "(string \<times> string) list"
  rows :: "dbrow list"

definition log_table_name :: string where
  "log_table_name = ''raw_gsheets.gsheet_ingestion_log''"

text \<open>
  A request to the database. The program splices the table name, the column definitions
  of \<open>CREATE TABLE\<close> and the column list of \<open>INSERT\<close> into the text of the statement; the
  last two are kept as the text it sends, which the database reads (below). The insert of
  a log entry is kept as the entry.
\<close>

datatype stmt =
    Connect
  | Begin
  | Commit
  | Rollback
  | DropTable string
  | CreateTable string string
  | Truncate string
  | InsertRows string string "nat list list" "string list"
  | InsertLog log_entry

record store =
  tables :: "string \<rightharpoonup> table"

text \<open>
  The state the program acts on: the committed contents of the database, the working copy
  of an open transaction, every request sent to the database so far, and the console lines
  of \<open>main\<close> and \<open>ingestCycle\<close> (the other console output is not modelled).
\<close>

datatype event =
    CheckingSheet string string
  | TriggeringIngestion
  | NotTimeYet
  | NotValidForIngestion string
  | ErrorOccurred error
  | WaitingForNextCycle

record world =
  committed :: store
  pending :: "store option"
  sent :: "stmt list"
  console :: "event list"

subsection \<open>How the database reads the spliced text\<close>

text \<open>
  The table name is spliced unquoted. A run of letters, digits, underscores and dots is
  read as the name, folded to lower case. Any other text in its place is taken as a
  syntax error, which fails the statement: a quoted name, or text that would make the
  statement another statement or more than one, is not followed further.
\<close>

definition isLetter :: "char \<Rightarrow> bool" where
  "isLetter c =
     ((65 \<le> (of_char c :: nat) \<and> (of_char c :: nat) \<le> 90) \<or>
      (97 \<le> (of_char c :: nat) \<and> (of_char c :: nat) \<le> 122))"

definition identChar :: "char \<Rightarrow> bool" where
  "identChar c = (isLetter c \<or> isDigit c \<or> c = CHR ''_'')"

definition toLower :: "char \<Rightarrow> char" where
  "toLower c =
     (if 65 \<le> (of_char c :: nat) \<and> (of_char c :: nat) \<le> 90
      then char_of ((of_char c :: nat) + 32) else c)"

definition validName :: "string \<Rightarrow> bool" where
  "validName t = (t \<noteq> [] \<and> list_all (\<lambda>c. identChar c \<or> c = CHR ''.'') t)"

definition pgName :: "string \<Rightarrow> string" where
  "pgName t = map toLower t"

definition dquote :: string where
  "dquote = [CHR 0x22]"

text \<open>
  A quoted identifier, read from after its opening quote: it ends at the next double
  quote, and two double quotes in a row stand for one inside the name.
\<close>

fun takeQuoted :: "string \<Rightarrow> (string \<times> string) option" where
  "takeQuoted [] = None"
| "takeQuoted [c] = (if [c] = dquote then Some ([], []) else None)"
| "takeQuoted (c # d # ds) =
     (if [c] = dquote then
        (if [d] = dquote
         then (case takeQuoted ds of None \<Rightarrow> None | Some (n, r) \<Rightarrow> Some (c # n, r))
         else Some ([], d # ds))
      else (case takeQuoted (d # ds) of None \<Rightarrow> None | Some (n, r) \<Rightarrow> Some (c # n, r)))"

text \<open>An identifier, quoted or not, and the text after it.\<close>

definition parseIdent :: "string \<Rightarrow> (string \<times> string) option" where
  "parseIdent s =
     (case s of
        [] \<Rightarrow> None
      | c # cs \<Rightarrow>
          if [c] = dquote then
            (case takeQuoted cs of
               None \<Rightarrow> None
             | Some (n, r) \<Rightarrow> if n = [] then None else Some (n, r))
          else
            (let n = takeWhile identChar s
             in if n = [] then None else Some (map toLower n, dropWhile identChar s)))"

text \<open>
  A list of items is cut at the commas that are outside double quotes and outside
  parentheses.
\<close>

fun splitTop :: "nat \<Rightarrow> bool \<Rightarrow> string \<Rightarrow> string \<Rightarrow> string list" where
  "splitTop depth quoted acc [] = [rev acc]"
| "splitTop depth quoted acc (c # cs) =
     (if quoted then splitTop depth ([c] \<noteq> dquote) (c # acc) cs
      else if [c] = dquote then splitTop depth True (c # acc) cs
      else if c = CHR ''('' then splitTop (depth + 1) False (c # acc) cs
      else if c = CHR '')'' then splitTop (depth - 1) False (c # acc) cs
      else if c = CHR '','' \<and> depth = 0 then rev acc # splitTop 0 False [] cs
      else splitTop depth False (c # acc) cs)"

definition isSpace :: "char \<Rightarrow> bool" where
  "isSpace c = (c = CHR '' '')"

text \<open>One column definition: an identifier, white space, and the type, which is the rest.\<close>

definition parseColumnDef :: "string \<Rightarrow> (string \<times> string) option" where
  "parseColumnDef item =
     (case parseIdent (dropWhile isSpace item) of
        None \<Rightarrow> None
      | Some (n, r) \<Rightarrow>
          (let ty = dropWhile isSpace r
           in if r = [] \<or> \<not> isSpace (hd r) \<or> ty = [] then None else Some (n, ty)))"

definition parseColumnDefs :: "string \<Rightarrow> (string \<times> string) list option" where
  "parseColumnDefs text =
     (if text = [] then Some [] else those (map parseColumnDef (splitTop 0 False [] text)))"

text \<open>One name of a column list: an identifier and nothing after it.\<close>

definition parseColumnName :: "string \<Rightarrow> string option" where
  "parseColumnName item =
     (case parseIdent (dropWhile isSpace item) of
        None \<Rightarrow> None
      | Some (n, r) \<Rightarrow> if dropWhile isSpace r = [] then Some n else None)"

definition parseColumnList :: "string \<Rightarrow> string list option" where
  "parseColumnList text =
     (case text of
        [] \<Rightarrow> None
      | c # cs \<Rightarrow>
          if c = CHR ''('' \<and> cs \<noteq> [] \<and> last cs = CHR '')''
          then those (map parseColumnName (splitTop 0 False [] (butlast cs)))
          else None)"

subsection \<open>What a statement does\<close>

text \<open>
  What a data statement does to a store, \<open>None\<close> when the database rejects it: the table
  name must be valid; a table must be present to be truncated or inserted into and absent
  to be created; the column definitions and the column list must read as such; every
  value tuple of an insert must have as many values as the column list has names, and
  every placeholder \<open>$k\<close> must name one of the parameters. A log entry goes into the log
  table. Objects that depend on a dropped table, which \<open>CASCADE\<close> drops with it, are not
  modelled; whether names and types fit the table is left to the oracle below.
\<close>

definition resolveRows :: "nat list list \<Rightarrow> string list \<Rightarrow> row list" where
  "resolveRows placeholders vals = map (map (\<lambda>k. vals ! (k - 1))) placeholders"

definition wellFormedInsert :: "string list \<Rightarrow> nat list list \<Rightarrow> string list \<Rightarrow> bool" where
  "wellFormedInsert cols placeholders vals =
     list_all (\<lambda>tuple. length tuple = length cols \<and>
                 list_all (\<lambda>k. 1 \<le> k \<and> k \<le> length vals) tuple) placeholders"

definition appendRows :: "string \<Rightarrow> dbrow list \<Rightarrow> store \<Rightarrow> store option" where
  "appendRows key new s =
     (case tables s key of
        None \<Rightarrow> None
      | Some tb \<Rightarrow> Some (s\<lparr>tables := (tables s)(key \<mapsto> tb\<lparr>rows := rows tb @ new\<rparr>)\<rparr>))"

fun applyStmt :: "stmt \<Rightarrow> store \<Rightarrow> store option" where
  "applyStmt (DropTable t) s =
     (if validName t then Some (s\<lparr>tables := (tables s)(pgName t := None)\<rparr>) else None)"
| "applyStmt (CreateTable t defs) s =
     (if validName t then
        (case tables s (pgName t) of
           Some tb \<Rightarrow> None
         | None \<Rightarrow>
             (case parseColumnDefs defs of
                None \<Rightarrow> None
              | Some cols \<Rightarrow>
                  Some (s\<lparr>tables := (tables s)(pgName t \<mapsto> \<lparr>columns = cols, rows = []\<rparr>)\<rparr>)))
      else None)"
| "applyStmt (Truncate t) s =
     (if validName t then
        (case tables s (pgName t) of
           None \<Rightarrow> None
         | Some tb \<Rightarrow> Some (s\<lparr>tables := (tables s)(pgName t \<mapsto> tb\<lparr>rows := []\<rparr>)\<rparr>))
      else None)"
| "applyStmt (InsertRows t colsText placeholders vals) s =
     (if validName t then
        (case parseColumnList colsText of
           None \<Rightarrow> None
         | Some cols \<Rightarrow>
             if wellFormedInsert cols placeholders vals
             then appendRows (pgName t) (map DataRow (resolveRows placeholders vals)) s
             else None)
      else None)"
| "applyStmt (InsertLog e) s = appendRows log_table_name [LogRow e] s"
| "applyStmt q s = Some s"

text \<open>
  Beyond that the database, or the connection to it, can fail any request: the oracle
  \<open>F n q\<close> says whether request \<open>q\<close>, sent after \<open>n\<close> earlier ones, fails. The theorems
  hold for every oracle.
\<close>

type_synonym fault = "nat \<Rightarrow> stmt \<Rightarrow> bool"

type_synonym 'a action = "world \<Rightarrow> (error + 'a) \<times> world"

text \<open>
  One request (\<^verbatim>\<open>pool.connect()\<close> or \<^verbatim>\<open>client.query(...)\<close>). A failed request changes
  nothing. \<open>BEGIN\<close> opens a working copy of the committed store, \<open>COMMIT\<close> makes the
  working copy the committed store, \<open>ROLLBACK\<close> discards it; a data statement acts on the
  working copy, or on the committed store when no transaction is open.
\<close>

definition exec :: "fault \<Rightarrow> stmt \<Rightarrow> unit action" where
  "exec F q w =
     (let n = length (sent w); w1 = w\<lparr>sent := sent w @ [q]\<rparr>
      in if F n q then (Inl (DatabaseError n), w1)
         else case q of
           Connect \<Rightarrow> (Inr (), w1)
         | Begin \<Rightarrow>
             (case pending w of
                None \<Rightarrow> (Inr (), w1\<lparr>pending := Some (committed w)\<rparr>)
              | Some s \<Rightarrow> (Inr (), w1))
         | Commit \<Rightarrow>
             (case pending w of
                None \<Rightarrow> (Inr (), w1)
              | Some s \<Rightarrow> (Inr (), w1\<lparr>committed := s, pending := None\<rparr>))
         | Rollback \<Rightarrow> (Inr (), w1\<lparr>pending := None\<rparr>)
         | _ \<Rightarrow>
             (case pending w of
                Some s \<Rightarrow>
                  (case applyStmt q s of
                     None \<Rightarrow> (Inl (DatabaseError n), w1)
                   | Some s' \<Rightarrow> (Inr (), w1\<lparr>pending := Some s'\<rparr>))
              | None \<Rightarrow>
                  (case applyStmt q (committed w) of
                     None \<Rightarrow> (Inl (DatabaseError n), w1)
                   | Some s' \<Rightarrow> (Inr (), w1\<lparr>committed := s'\<rparr>))))"

text \<open>Sequencing, throwing and catching, for code that threads the state through calls.\<close>

definition succeed :: "'a \<Rightarrow> 'a action" where
  "succeed x w = (Inr x, w)"

definition throw :: "error \<Rightarrow> 'a action" where
  "throw e w = (Inl e, w)"

definition andThen :: "'a action \<Rightarrow> ('a \<Rightarrow> 'b action) \<Rightarrow> 'b action" where
  "andThen m k w = (case m w of (Inl e, w') \<Rightarrow> (Inl e, w') | (Inr x, w') \<Rightarrow> k x w')"

definition tryCatch :: "'a action \<Rightarrow> (error \<Rightarrow> 'a action) \<Rightarrow> 'a action" where
  "tryCatch m h w = (case m w of (Inl e, w') \<Rightarrow> h e w' | (Inr x, w') \<Rightarrow> (Inr x, w'))"

definition consoleLog :: "event \<Rightarrow> unit action" where
  "consoleLog ev w = (Inr (), w\<lparr>console := console w @ [ev]\<rparr>)"

section \<open>Logging, provisioning and loading\<close>

text \<open>
  \<open>insertLogEntry\<close>: one row of the log table in a transaction of its own. The
  connection is taken before the \<^verbatim>\<open>try\<close>; the \<^verbatim>\<open>finally\<close> only releases it.
\<close>

definition insertLogEntry ::
  "fault \<Rightarrow> int \<Rightarrow> string \<Rightarrow> description \<Rightarrow> category \<Rightarrow> error option \<Rightarrow> unit action" where
  "insertLogEntry F processID sheetID le_desc le_cat err_msg =
     andThen (exec F Connect) (\<lambda>_.
       tryCatch
         (andThen (exec F Begin) (\<lambda>_.
          andThen (exec F (InsertLog \<lparr>gsheet_id = sheetID, process_id = processID,
                     log_entry_desc = le_desc, log_entry_category = le_cat,
                     err_message = err_msg\<rparr>)) (\<lambda>_.
          exec F Commit)))
         (\<lambda>e. andThen (exec F Rollback) (\<lambda>_. throw e)))"

text \<open>
  A cell of a metadata row inside a template literal: a missing cell prints as
  \<^verbatim>\<open>undefined\<close>.
\<close>

definition cell :: "row \<Rightarrow> nat \<Rightarrow> string" where
  "cell r i = (if i < length r then r ! i else ''undefined'')"


definition columnDefinitions :: "row list \<Rightarrow> string" where
  "columnDefinitions metadata =
     join '', '' (map (\<lambda>column. dquote @ cell column 0 @ dquote @ '' '' @ cell column 1) metadata)"

text \<open>
  \<open>createTableContainer\<close>. \<open>metadata\<close> is what \<open>readSheetData\<close> returned, \<open>None\<close> for an
  empty range, on which \<^verbatim>\<open>metadata.map\<close> throws before a connection is taken.
\<close>

definition createTableContainer ::
  "fault \<Rightarrow> int \<Rightarrow> string \<Rightarrow> string \<Rightarrow> row list option \<Rightarrow> unit action" where
  "createTableContainer F processID sheetID tbl metadata =
     (case metadata of
        None \<Rightarrow> throw TypeError
      | Some md \<Rightarrow>
          andThen (exec F Connect) (\<lambda>_.
            tryCatch
              (andThen (exec F Begin) (\<lambda>_.
               andThen (exec F (DropTable tbl)) (\<lambda>_.
               andThen (exec F (CreateTable tbl (columnDefinitions md))) (\<lambda>_.
               andThen (exec F Commit) (\<lambda>_.
               insertLogEntry F processID sheetID (TableCreated tbl) info None)))))
              (\<lambda>e. andThen (exec F Rollback) (\<lambda>_.
                   andThen (insertLogEntry F processID sheetID
                              (TableCreationFailed tbl) err (Some e)) (\<lambda>_.
                   throw e)))))"

subsection \<open>The numeric clean-up of the second column\<close>

text \<open>
  \<open>isNumeric\<close> tests the value against the pattern \<^verbatim>\<open>^-?\d+(,\d+)*(\.\d+)?$\<close>. The
  pattern is kept as a regular expression and matched by taking derivatives, character
  by character; \<open>\d\<close> is a digit from 0 to 9, and the anchors make the match one of the
  whole value.
\<close>

datatype rx = Nothing | Eps | Chr char | Digit | Seq rx rx | Alt rx rx | Star rx

fun nullable :: "rx \<Rightarrow> bool" where
  "nullable Nothing = False"
| "nullable Eps = True"
| "nullable (Chr c) = False"
| "nullable Digit = False"
| "nullable (Seq r s) = (nullable r \<and> nullable s)"
| "nullable (Alt r s) = (nullable r \<or> nullable s)"
| "nullable (Star r) = True"

fun deriv :: "char \<Rightarrow> rx \<Rightarrow> rx" where
  "deriv a Nothing = Nothing"
| "deriv a Eps = Nothing"
| "deriv a (Chr c) = (if a = c then Eps else Nothing)"
| "deriv a Digit = (if isDigit a then Eps else Nothing)"
| "deriv a (Seq r s) =
     (if nullable r then Alt (Seq (deriv a r) s) (deriv a s) else Seq (deriv a r) s)"
| "deriv a (Alt r s) = Alt (deriv a r) (deriv a s)"
| "deriv a (Star r) = Seq (deriv a r) (Star r)"

fun matches :: "rx \<Rightarrow> string \<Rightarrow> bool" where
  "matches r [] = nullable r"
| "matches r (c # cs) = matches (deriv c r) cs"

definition optional :: "rx \<Rightarrow> rx" where
  "optional r = Alt r Eps"

definition oneOrMore :: "rx \<Rightarrow> rx" where
  "oneOrMore r = Seq r (Star r)"

definition numericPattern :: rx where
  "numericPattern =
     Seq (optional (Chr CHR ''-''))
       (Seq (oneOrMore Digit)
          (Seq (Star (Seq (Chr CHR '','') (oneOrMore Digit)))
             (optional (Seq (Chr CHR ''.'') (oneOrMore Digit)))))"

definition isNumeric :: "string \<Rightarrow> bool" where
  "isNumeric v = matches numericPattern v"

definition cleanNumericValue :: "string \<Rightarrow> string" where
  "cleanNumericValue v = filter (\<lambda>c. c \<noteq> CHR '','') v"

text \<open>The values one row pushes onto the parameter list, in column order.\<close>

definition normalizeRow :: "row \<Rightarrow> row" where
  "normalizeRow r =
     map (\<lambda>(columnIndex, v).
            if columnIndex = 1 \<and> isNumeric v then cleanNumericValue v else v)
       (enumerate 0 r)"

definition batchSize :: nat where
  "batchSize = 100"

definition slice :: "'a list \<Rightarrow> nat \<Rightarrow> nat \<Rightarrow> 'a list" where
  "slice xs i j = take (j - i) (drop i xs)"

text \<open>The placeholders of one batch: row \<open>rowIndex\<close> gets \<open>$(rowIndex * row.length + index + 1)\<close>.\<close>

definition placeholdersOf :: "row list \<Rightarrow> nat list list" where
  "placeholdersOf batch =
     map (\<lambda>(rowIndex, r). map (\<lambda>index. rowIndex * length r + index + 1) [0..<length r])
       (enumerate 0 batch)"

text \<open>
  The loop over the batches, from index \<open>i\<close> with \<open>itter\<close> batches done; it returns the
  final \<open>itter\<close>.
\<close>

function insertBatches ::
  "fault \<Rightarrow> string \<Rightarrow> string \<Rightarrow> row list \<Rightarrow> nat \<Rightarrow> nat \<Rightarrow> nat action" where
  "insertBatches F tbl formattedColumnNames data i itter w =
     (if i < length data then
        (let batch = slice data i (i + batchSize);
             vals = concat (map normalizeRow batch);
             placeholders = placeholdersOf batch
         in case exec F (InsertRows tbl formattedColumnNames placeholders vals) w of
              (Inl e, w') \<Rightarrow> (Inl e, w')
            | (Inr u, w') \<Rightarrow>
                insertBatches F tbl formattedColumnNames data (i + batchSize) (itter + 1) w')
      else (Inr itter, w))"
  by pat_completeness auto
termination
  by (relation "measure (\<lambda>(F, t, cols, data, i, itter, w). length data - i)")
     (auto simp: batchSize_def)

text \<open>
  \<open>insertDataToPostgres\<close>. \<open>data\<close> is what \<open>readSheetData\<close> returned, \<open>None\<close> for an empty
  range, on which \<^verbatim>\<open>data.length\<close> throws inside the transaction. The parameter
  \<^verbatim>\<open>formattedValues\<close> is not used by the function and is left out.
\<close>

definition insertDataToPostgres ::
  "fault \<Rightarrow> int \<Rightarrow> string \<Rightarrow> row list option \<Rightarrow> string \<Rightarrow> string \<Rightarrow> unit action" where
  "insertDataToPostgres F processID sheetID data formattedColumnNames tbl =
     andThen (exec F Connect) (\<lambda>_.
       tryCatch
         (andThen (exec F Begin) (\<lambda>_.
          andThen (exec F (Truncate tbl)) (\<lambda>_.
          andThen (case data of
                     None \<Rightarrow> throw TypeError
                   | Some d \<Rightarrow> insertBatches F tbl formattedColumnNames d 0 0) (\<lambda>itter.
          andThen (exec F Commit) (\<lambda>_.
          insertLogEntry F processID sheetID
            (TableRepopulated tbl itter batchSize) info None)))))
         (\<lambda>e. andThen (exec F Rollback) (\<lambda>_.
              andThen (insertLogEntry F processID sheetID
                         (TableIngestionFailed tbl) err (Some e)) (\<lambda>_.
              throw e))))"

section \<open>The orchestrator\<close>

definition readSheetData :: "sheetsApi \<Rightarrow> string \<Rightarrow> jsval \<Rightarrow> row list option action" where
  "readSheetData sheets sheetID rangeRef w =
     (case valuesGet sheets sheetID (toStr rangeRef) of
        Inl e \<Rightarrow> (Inl e, w)
      | Inr v \<Rightarrow> (Inr v, w))"

text \<open>The comparison \<^verbatim>\<open>setup.drop_table == 'TRUE'\<close>.\<close>

fun looseEqualsString :: "jsval \<Rightarrow> string \<Rightarrow> bool" where
  "looseEqualsString Undefined s = False"
| "looseEqualsString v s = (toStr v = s)"

definition formatColumnNames :: "row list \<Rightarrow> string" where
  "formatColumnNames metadata =
     ''('' @ join '', '' (map (\<lambda>column. dquote @ cell column 0 @ dquote) metadata) @ '')''"

text \<open>
  \<open>ingestCycle\<close>: everything runs inside one \<^verbatim>\<open>try\<close>, whose \<^verbatim>\<open>catch\<close> prints the error
  and returns.
\<close>

definition ingestCycle ::
  "fault \<Rightarrow> sheetsApi \<Rightarrow> Setup \<Rightarrow> int \<Rightarrow> string \<Rightarrow> unit action" where
  "ingestCycle F sheets su processID sheetID =
     tryCatch
       (andThen (readSheetData sheets sheetID (data_range su)) (\<lambda>data.
        andThen (readSheetData sheets sheetID (metadata_range su)) (\<lambda>metadata.
          let tbl = ''raw_gsheets.'' @ toStr (table_name su)
          in andThen (if looseEqualsString (drop_table su) ''TRUE''
                      then createTableContainer F processID sheetID tbl metadata
                      else succeed ()) (\<lambda>_.
             case metadata of
               None \<Rightarrow> throw TypeError
             | Some md \<Rightarrow>
                 insertDataToPostgres F processID sheetID data
                   (formatColumnNames md) tbl))))
       (\<lambda>error. consoleLog (ErrorOccurred error))"

text \<open>
  The body of the loop over the sheets in \<open>main\<close>. Reading a field of a \<open>setup\<close> that is
  \<^verbatim>\<open>undefined\<close> would throw.
\<close>

definition processSheet ::
  "fault \<Rightarrow> sheetsApi \<Rightarrow> jsenv \<Rightarrow> int \<Rightarrow> string \<times> string \<Rightarrow> unit action" where
  "processSheet F sheets env processID sheet =
     (case sheet of (sheetId, sheetName) \<Rightarrow>
        andThen (consoleLog (CheckingSheet sheetName sheetId)) (\<lambda>_.
        andThen (\<lambda>w. (checkSetup sheets sheetId, w)) (\<lambda>(su, validSetup).
          if validSetup then
            (case su of
               None \<Rightarrow> throw TypeError
             | Some s \<Rightarrow>
                 if shouldTriggerIngestion env s (Finite processID) then
                   andThen (consoleLog TriggeringIngestion) (\<lambda>_.
                   ingestCycle F sheets s processID sheetId)
                 else consoleLog NotTimeYet)
          else consoleLog (NotValidForIngestion sheetName))))"

fun forEachSheet ::
  "fault \<Rightarrow> sheetsApi \<Rightarrow> jsenv \<Rightarrow> int \<Rightarrow> (string \<times> string) list \<Rightarrow> unit action" where
  "forEachSheet F sheets env processID [] = succeed ()"
| "forEachSheet F sheets env processID (sheet # rest) =
     andThen (processSheet F sheets env processID sheet) (\<lambda>_.
     forEachSheet F sheets env processID rest)"

text \<open>
  One pass of the \<^verbatim>\<open>while\<close> loop of \<open>main\<close>, for the cycle's \<open>processID\<close>: the list of
  sheets and the loop over it sit in one \<^verbatim>\<open>try\<close>. The loop itself runs without end
  (\<^verbatim>\<open>max_cycles = -1\<close>), one pass a minute.
\<close>

definition runCycle :: "fault \<Rightarrow> sheetsApi \<Rightarrow> jsenv \<Rightarrow> int \<Rightarrow> unit action" where
  "runCycle F sheets env processID =
     andThen
       (tryCatch
          (andThen (\<lambda>w. (filesList sheets, w)) (\<lambda>sheetsList.
           forEachSheet F sheets env processID sheetsList))
          (\<lambda>error. consoleLog (ErrorOccurred error)))
       (\<lambda>_. consoleLog WaitingForNextCycle)"

section \<open>Notions used to state the properties\<close>

text \<open>
  The batches the loop of \<open>insertBatches\<close> cuts from index \<open>i\<close> on, and the insert
  statement it builds for one batch.
\<close>

function batchesFrom :: "row list \<Rightarrow> nat \<Rightarrow> row list list" where
  "batchesFrom data i =
     (if i < length data then slice data i (i + batchSize) # batchesFrom data (i + batchSize)
      else [])"
  by pat_completeness auto
termination
  by (relation "measure (\<lambda>(data, i). length data - i)") (auto simp: batchSize_def)

definition insertStmt :: "string \<Rightarrow> string \<Rightarrow> row list \<Rightarrow> stmt" where
  "insertStmt tbl colsText batch =
     InsertRows tbl colsText (placeholdersOf batch) (concat (map normalizeRow batch))"


definition loadSteps :: "fault \<Rightarrow> string \<Rightarrow> string \<Rightarrow> row list \<Rightarrow> nat action" where
  "loadSteps F tbl colsText d =
     andThen (exec F Begin) (\<lambda>_.
     andThen (exec F (Truncate tbl)) (\<lambda>_.
     insertBatches F tbl colsText d 0 0))"

text \<open>
  Tables \<open>T'\<close> are tables \<open>T\<close> kept as they were, but for one log entry \<open>e\<close> that may
  have been added to the log table.
\<close>

definition addLogRow :: "log_entry \<Rightarrow> (string \<rightharpoonup> table) \<Rightarrow> (string \<rightharpoonup> table)" where
  "addLogRow e T =
     (case T log_table_name of
        None \<Rightarrow> T
      | Some tb \<Rightarrow> T(log_table_name \<mapsto> tb\<lparr>rows := rows tb @ [LogRow e]\<rparr>))"






definition logRow ::
  "int \<Rightarrow> string \<Rightarrow> description \<Rightarrow> category \<Rightarrow> error option \<Rightarrow> log_entry" where
  "logRow processID sheetID le_desc le_cat err_msg =
     \<lparr>gsheet_id = sheetID, process_id = processID, log_entry_desc = le_desc,
      log_entry_category = le_cat, err_message = err_msg\<rparr>"

definition isInsertRows :: "stmt \<Rightarrow> bool" where
  "isInsertRows q = (case q of InsertRows t cols ps vs \<Rightarrow> True | _ \<Rightarrow> False)"

text \<open>An action keeps a property of the state, whether it returns or throws.\<close>

definition keeps :: "(world \<Rightarrow> bool) \<Rightarrow> 'a action \<Rightarrow> bool" where
  "keeps P m \<longleftrightarrow> (\<forall>w. P w \<longrightarrow> P (snd (m w)))"

definition isData :: "stmt \<Rightarrow> bool" where
  "isData q = (q \<noteq> Connect \<and> q \<noteq> Begin \<and> q \<noteq> Commit \<and> q \<noteq> Rollback)"


section \<open>Example data\<close>

text \<open>
  A runtime whose local time is one hour ahead of UTC (Berlin in winter) and which parses
  the two date strings used below; a sheet configured for a daily run from 1 January 2024,
  00:00 local time; the typed configuration it stands for; and a monthly variant whose
  frequency value is not a number.
\<close>

definition berlinWinter :: jsenv where
  "berlinWinter =
     \<lparr> dateParse = (\<lambda>s. if s = ''2024-01-01T00:00'' then Finite 1704063600000
                        else if s = ''2024-03-15T10:30'' then Finite 1710495000000
                        else NaN),
       localTZA = (\<lambda>t. 3600000) \<rparr>"

definition dailySetup :: Setup where
  "dailySetup =
     \<lparr> metadata_range = Str ''Metadata!A2:B3'', data_range = Str ''Data!A2:B4'',
       table_name = Str ''rates'', drop_table = Str ''TRUE'',
       first_ingestion = Str ''2024-01-01T00:00'', ingestion_type = Str ''Automatic'',
       frequency_unit = Str ''Day'', frequency_value = Str ''1'' \<rparr>"

definition dailyConfig :: SourceConfig where
  "dailyConfig =
     \<lparr> firstIngestion = 1704063600000, ingestionType = Automatic,
       frequencyUnit = Day, frequencyValue = 1 \<rparr>"

definition monthlySetup :: Setup where
  "monthlySetup =
     dailySetup \<lparr> first_ingestion := Str ''2024-03-15T10:30'',
       frequency_unit := Str ''Month'', frequency_value := Str ''monthly'' \<rparr>"

definition fortnightSetup :: Setup where
  "fortnightSetup = dailySetup \<lparr> frequency_unit := Str ''Fortnight'' \<rparr>"

text \<open>
  A spreadsheet service with four documents: \<open>broken\<close>, whose named ranges cannot be read;
  \<open>partial\<close>, which declares two of the eight ranges; \<open>blank\<close>, which declares all eight
  and leaves the table name empty; and \<open>good\<close>, fully configured, with two columns and three
  data rows. The drive lists \<open>broken\<close> before \<open>good\<close>.
\<close>

definition goodValues :: "row list option list" where
  "goodValues =
     [Some [[''Metadata!A2:B3'']], Some [[''Data!A2:B4'']], Some [[''rates'']],
      Some [[''TRUE'']], Some [[''2024-01-01T00:00'']], Some [[''Automatic'']],
      Some [[''Day'']], Some [[''1'']]]"

definition blankValues :: "row list option list" where
  "blankValues = goodValues [2 := None]"

definition demoSheets :: sheetsApi where
  "demoSheets =
     \<lparr> namedRangesOf = (\<lambda>sheetID.
         if sheetID = ''broken'' then Inl TransportFailure
         else if sheetID = ''partial'' then Inr [''metadata_range'', ''data_range'']
         else Inr (''unrelated'' # setupScoped ''table_name'' # rangeNames)),
       batchGet = (\<lambda>sheetID ranges.
         if sheetID = ''blank'' then Inr blankValues else Inr goodValues),
       valuesGet = (\<lambda>sheetID rangeRef.
         if rangeRef = ''Data!A2:B4''
         then Inr (Some [[''EUR'', ''1,000''], [''USD'', ''1,085.50''], [''GBP'', ''n/a'']])
         else if rangeRef = ''Metadata!A2:B3''
         then Inr (Some [[''code'', ''text''], [''amount'', ''text'']])
         else Inr None),
       filesList = Inr [(''broken'', ''Broken''), (''good'', ''Rates'')] \<rparr>"

definition blankSetup :: Setup where
  "blankSetup = dailySetup \<lparr> table_name := Undefined \<rparr>"

definition noFault :: fault where
  "noFault = (\<lambda>n q. False)"

definition emptyWorld :: world where
  "emptyWorld =
     \<lparr> committed = \<lparr> tables = Map.empty \<rparr>, pending = None,
       sent = [], console = [] \<rparr>"

text \<open>
  A database that holds the log table, empty, and two tables with one row each:
  \<open>raw_gsheets.rates\<close> with two columns and \<open>raw_gsheets.amounts\<close> with one. Metadata of
  two columns, the first with a space in its name; metadata whose only type cell holds a
  comma; four data rows for \<open>raw_gsheets.rates\<close>; 250 rows of one column; and oracles that
  fail the request with a given number, or every \<open>CREATE TABLE\<close>.
\<close>

definition logTable :: table where
  "logTable =
     \<lparr>columns = [(''gsheet_id'', ''text''), (''process_id'', ''timestamp''),
                 (''log_entry_desc'', ''text''), (''log_entry_timestamp'', ''timestamp''),
                 (''log_entry_category'', ''text''), (''err_message'', ''text'')],
      rows = []\<rparr>"

definition oldTable :: table where
  "oldTable = \<lparr>columns = [(''code'', ''text''), (''amount'', ''text'')],
               rows = [DataRow [''OLD'', ''0'']]\<rparr>"

definition amountsTable :: table where
  "amountsTable = \<lparr>columns = [(''amount'', ''text'')], rows = [DataRow [''0'']]\<rparr>"

definition oldWorld :: world where
  "oldWorld =
     \<lparr> committed =
         \<lparr> tables = [''raw_gsheets.rates'' \<mapsto> oldTable,
                      ''raw_gsheets.amounts'' \<mapsto> amountsTable,
                      log_table_name \<mapsto> logTable] \<rparr>,
       pending = None, sent = [], console = [] \<rparr>"




definition ratesColumns :: string where
  "ratesColumns = formatColumnNames [[''code'', ''text''], [''amount'', ''text'']]"

definition amountColumn :: string where
  "amountColumn = formatColumnNames [[''amount'', ''text'']]"

definition demoData :: "row list" where
  "demoData =
     [[''EUR'', ''1,000''], [''U,S'', ''-1,085.50''], [''GBP'', ''n/a,x''],
      [''1,5'', ''12,34x'']]"

definition data250 :: "row list" where
  "data250 = replicate 250 [''1,000'']"

definition failAt :: "nat \<Rightarrow> fault" where
  "failAt k = (\<lambda>n q. n = k)"







text \<open>
  Loads over that database: the four rows into \<open>raw_gsheets.rates\<close>; 250 rows into
  \<open>raw_gsheets.amounts\<close>; the same 250 rows when the request number 5, the insert of the
  third batch, fails (requests are numbered from 0: the connection, \<open>BEGIN\<close>, \<open>TRUNCATE\<close>,
  then the inserts); and 250 rows into the log table itself, as a sheet whose table name
  is \<open>gsheet_ingestion_log\<close> asks for.
\<close>

definition demoLoad :: "(error + unit) \<times> world" where
  "demoLoad =
     insertDataToPostgres noFault 1704150000000 ''good'' (Some demoData)
       ratesColumns ''raw_gsheets.rates'' oldWorld"

definition load250 :: "(error + unit) \<times> world" where
  "load250 =
     insertDataToPostgres noFault 1704150000000 ''good'' (Some data250)
       amountColumn ''raw_gsheets.amounts'' oldWorld"


definition failedLoad :: "(error + unit) \<times> world" where
  "failedLoad =
     insertDataToPostgres (failAt 5) 1704150000000 ''good'' (Some data250)
       amountColumn ''raw_gsheets.amounts'' oldWorld"

definition logTargetLoad :: "(error + unit) \<times> world" where
  "logTargetLoad =
     insertDataToPostgres noFault 1704150000000 ''good'' (Some data250)
       (formatColumnNames [[''gsheet_id'', ''text'']])
       (''raw_gsheets.'' @ ''gsheet_ingestion_log'') oldWorld"
section \<open>Properties of the schedule check\<close>

lemma jsrem_zero:
  assumes "b \<noteq> 0"
  shows "jsseq (jsrem (Finite a) (Finite b)) (Finite 0) = (a mod b = 0)"
proof -
  have "(\<bar>a\<bar> mod \<bar>b\<bar> = 0) = (a mod b = 0)"
    by (simp add: mod_eq_0_iff_dvd)
  moreover have "a = 0 \<Longrightarrow> a mod b = 0" by simp
  ultimately show ?thesis using assms by (auto simp: sgn_if)
qed

lemma jsrem_NaN: "jsrem x NaN = NaN"
  by (cases x) simp_all

lemma lookup_unitName:
  "numOfLookup (minutesPerUnit (unitName u)) =
     (if u = Month then NaN else Finite (unitMinutes u))"
  by (cases u) (simp_all add: numOfLookup_def minutesPerUnit_def)

lemma parseInt_1: "parseInt ''1'' = Finite 1"
  by (simp add: parseInt_def isWhiteSpace_def isDigit_def digitVal_def)

lemma DateFromTime_examples:
  "DateFromTime 1707993000000 = 15" "DateFromTime 1710498600000 = 15"
  by (simp_all add: DateFromTime_def DayNumber_def msPerDay_def YearFromDay_def
      DayFromYear_def InLeapYear_def)

text \<open>
  The year computed from the estimate is the year of the day: the largest \<open>y\<close> whose
  first day is not after \<open>d\<close>.
\<close>

lemma div_bounds:
  fixes x :: int
  shows "4 * (x div 4) \<le> x \<and> x \<le> 4 * (x div 4) + 3"
    and "100 * (x div 100) \<le> x \<and> x \<le> 100 * (x div 100) + 99"
    and "400 * (x div 400) \<le> x \<and> x \<le> 400 * (x div 400) + 399"
    and "146097 * (x div 146097) \<le> x \<and> x < 146097 * (x div 146097) + 146097"
  by presburger+

lemma DayFromYear_bounds:
  "146097 * y - 287811596 \<le> 400 * DayFromYear y \<and>
   400 * DayFromYear y \<le> 146097 * y - 287810501"
proof -
  define a where "a = (y - 1969) div 4"
  define b where "b = (y - 1901) div 100"
  define c where "c = (y - 1601) div 400"
  have "4 * a \<le> y - 1969" "y - 1969 \<le> 4 * a + 3"
    "100 * b \<le> y - 1901" "y - 1901 \<le> 100 * b + 99"
    "400 * c \<le> y - 1601" "y - 1601 \<le> 400 * c + 399"
    unfolding a_def b_def c_def using div_bounds by blast+
  moreover have "DayFromYear y = 365 * y - 719050 + a - b + c"
    by (simp add: DayFromYear_def a_def b_def c_def)
  ultimately show ?thesis by (intro conjI) linarith+
qed

lemma YearFromDay_bracket:
  "DayFromYear (YearFromDay d) \<le> d \<and> d < DayFromYear (YearFromDay d + 1)"
proof -
  define q where "q = (400 * d) div 146097"
  define y where "y = 1970 + q"
  define ym where "ym = y - 1"
  define yp where "yp = y + 2"
  have q: "146097 * q \<le> 400 * d" "400 * d < 146097 * q + 146097"
    unfolding q_def using div_bounds by blast+
  have lo: "DayFromYear ym \<le> d"
    using DayFromYear_bounds [of ym] q y_def ym_def by linarith
  have hi: "d < DayFromYear yp"
    using DayFromYear_bounds [of yp] q y_def yp_def by linarith
  have e: "YearFromDay d =
             (if d < DayFromYear y then y - 1
              else if DayFromYear (y + 1) \<le> d then y + 1 else y)"
    by (simp add: YearFromDay_def y_def q_def Let_def)
  have "y - 1 + 1 = y" "y + 1 + 1 = yp" by (simp_all add: yp_def)
  with lo hi show ?thesis
    unfolding e ym_def by auto
qed

text \<open>
  C1. With ingestion type \<open>Manual\<close> the check is false whatever the other fields hold.
  Otherwise, for a configuration object that stands for a typed configuration with unit
  Minute, Hour, Day or Week, the code's answer is the specification's: with
  \<open>delta = floor((processId - firstIngestion) / 1 minute)\<close> and
  \<open>periodMinutes = frequencyValue * unitMinutes\<close>, true iff \<open>delta \<ge> 0\<close> and
  \<open>delta mod periodMinutes = 0\<close>.
\<close>

theorem shouldTriggerIngestion_refines_isDue:
  "(ingestion_type su = Str ''Manual'' \<longrightarrow> \<not> shouldTriggerIngestion env su processID) \<and>
   (represents env su config \<and> frequencyUnit config \<noteq> Month \<longrightarrow>
      shouldTriggerIngestion env su (Finite p) = isDue env config p)"
proof (intro conjI impI)
  assume "ingestion_type su = Str ''Manual''"
  then show "\<not> shouldTriggerIngestion env su processID"
    by (simp add: shouldTriggerIngestion_def)
next
  assume a: "represents env su config \<and> frequencyUnit config \<noteq> Month"
  then have nz: "frequencyValue config * unitMinutes (frequencyUnit config) \<noteq> 0"
    by (cases "frequencyUnit config") (auto simp: represents_def)
  show "shouldTriggerIngestion env su (Finite p) = isDue env config p"
  proof (cases "ingestion_type su = Str ''Manual''")
    case True
    with a show ?thesis
      by (simp add: shouldTriggerIngestion_def isDue_def represents_def)
  next
    case False
    with a have "ingestionType config \<noteq> Manual"
      by (simp add: represents_def)
    moreover from a have "frequency_unit su \<noteq> Str ''Month''"
      by (cases "frequencyUnit config") (auto simp: represents_def)
    ultimately show ?thesis using a False nz
      by (simp add: shouldTriggerIngestion_def isDue_def represents_def lookup_unitName
          Let_def jsrem_zero mult.commute del: jsrem.simps jsseq.simps)
  qed
qed

text \<open>
  The specification's end-to-end example: daily from 2024-01-01T00:00, due at
  2024-01-02T00:00 and not due at 2024-01-02T00:05.
\<close>

theorem shouldTriggerIngestion_refines_isDue_witness:
  "represents berlinWinter dailySetup dailyConfig \<and> frequencyUnit dailyConfig \<noteq> Month \<and>
   shouldTriggerIngestion berlinWinter dailySetup (Finite 1704150000000) \<and>
   \<not> shouldTriggerIngestion berlinWinter dailySetup (Finite 1704150300000)"
proof -
  have r: "represents berlinWinter dailySetup dailyConfig \<and> frequencyUnit dailyConfig \<noteq> Month"
    by (simp add: represents_def berlinWinter_def dailySetup_def dailyConfig_def parseInt_1)
  have d1: "isDue berlinWinter dailyConfig 1704150000000"
    by (simp add: isDue_def dailyConfig_def)
  have d2: "\<not> isDue berlinWinter dailyConfig 1704150300000"
    by (simp add: isDue_def dailyConfig_def)
  from r d1 d2 show ?thesis
    using shouldTriggerIngestion_refines_isDue
            [of dailySetup berlinWinter NaN dailyConfig 1704150000000]
          shouldTriggerIngestion_refines_isDue
            [of dailySetup berlinWinter NaN dailyConfig 1704150300000]
    by simp
qed

text \<open>
  C6. With unit \<open>Month\<close> (and ingestion type not \<open>Manual\<close>) the check is true iff the
  day of the month, the hour and the minute of \<open>processID\<close>, in local time, equal those
  of the first ingestion. The frequency value plays no part, and nothing asks that
  \<open>processID\<close> be on or after the first ingestion.
\<close>

theorem shouldTriggerIngestion_Month:
  assumes "ingestion_type su \<noteq> Str ''Manual''"
    and "frequency_unit su = Str ''Month''"
    and "newDate env (first_ingestion su) = Finite f"
  shows "shouldTriggerIngestion env su (Finite p) =
           (DateFromTime (LocalTime env p) = DateFromTime (LocalTime env f) \<and>
            HourFromTime (LocalTime env p) = HourFromTime (LocalTime env f) \<and>
            MinFromTime (LocalTime env p) = MinFromTime (LocalTime env f))
         \<and> shouldTriggerIngestion env (su\<lparr>frequency_value := v\<rparr>) (Finite p) =
           shouldTriggerIngestion env su (Finite p)"
  using assms by (simp add: shouldTriggerIngestion_def)

text \<open>
  First ingestion on 15 March 2024 at 10:30: the check is true on 15 February 2024 at
  10:30, a month before it, and stays true when the frequency value is changed.
\<close>

theorem shouldTriggerIngestion_Month_witness:
  "ingestion_type monthlySetup \<noteq> Str ''Manual'' \<and>
   frequency_unit monthlySetup = Str ''Month'' \<and>
   newDate berlinWinter (first_ingestion monthlySetup) = Finite 1710495000000 \<and>
   (1707989400000 :: int) < 1710495000000 \<and>
   shouldTriggerIngestion berlinWinter monthlySetup (Finite 1707989400000) \<and>
   shouldTriggerIngestion berlinWinter (monthlySetup\<lparr>frequency_value := Str ''7''\<rparr>)
     (Finite 1707989400000)"
proof -
  have h: "ingestion_type monthlySetup \<noteq> Str ''Manual''"
    "frequency_unit monthlySetup = Str ''Month''"
    "newDate berlinWinter (first_ingestion monthlySetup) = Finite 1710495000000"
    by (simp_all add: monthlySetup_def dailySetup_def berlinWinter_def)
  have c: "DateFromTime (LocalTime berlinWinter 1707989400000) =
             DateFromTime (LocalTime berlinWinter 1710495000000)"
    "HourFromTime (LocalTime berlinWinter 1707989400000) =
       HourFromTime (LocalTime berlinWinter 1710495000000)"
    "MinFromTime (LocalTime berlinWinter 1707989400000) =
       MinFromTime (LocalTime berlinWinter 1710495000000)"
    by (simp_all add: LocalTime_def berlinWinter_def DateFromTime_examples
        HourFromTime_def MinFromTime_def)
  show ?thesis
    using shouldTriggerIngestion_Month [OF h, of 1707989400000 "Str ''7''"] h c by simp
qed

text \<open>
  C9, as stated, fails: with unit \<open>Month\<close> the frequency value is never read, so a value
  that does not parse as an integer does not make the check false.
\<close>

theorem shouldTriggerIngestion_unparsed_Month_counterexample:
  "ingestion_type monthlySetup \<noteq> Str ''Manual'' \<and>
   parseInt (toStr (frequency_value monthlySetup)) = NaN \<and>
   shouldTriggerIngestion berlinWinter monthlySetup (Finite 1707989400000)"
  by (simp add: monthlySetup_def dailySetup_def berlinWinter_def shouldTriggerIngestion_def
      parseInt_def isWhiteSpace_def isDigit_def LocalTime_def DateFromTime_examples
      HourFromTime_def MinFromTime_def)

text \<open>
  C9, amended. The check is a total function to the booleans. For an ingestion type other
  than \<open>Manual\<close> and a unit other than \<open>Month\<close>, it is false whenever the unit is not in
  the table (so not one of Minute, Hour, Day, Week) or the frequency value does not parse
  as an integer: the period is \<open>NaN\<close>, and so is the remainder compared with zero.
\<close>

theorem shouldTriggerIngestion_NaN_period:
  assumes "ingestion_type su \<noteq> Str ''Manual''"
    and "frequency_unit su \<noteq> Str ''Month''"
    and "minutesPerUnit (toStr (frequency_unit su)) = None \<or>
         parseInt (toStr (frequency_value su)) = NaN"
  shows "\<not> shouldTriggerIngestion env su processID"
proof -
  have "jsmul (numOfLookup (minutesPerUnit (toStr (frequency_unit su))))
          (parseInt (toStr (frequency_value su))) = NaN"
    using assms(3)
    by (cases "numOfLookup (minutesPerUnit (toStr (frequency_unit su)))")
       (auto simp: numOfLookup_def)
  then show ?thesis using assms(1,2)
    by (simp add: shouldTriggerIngestion_def Let_def jsrem_NaN)
qed

theorem shouldTriggerIngestion_NaN_period_witness:
  "ingestion_type fortnightSetup \<noteq> Str ''Manual'' \<and>
   frequency_unit fortnightSetup \<noteq> Str ''Month'' \<and>
   minutesPerUnit (toStr (frequency_unit fortnightSetup)) = None \<and>
   \<not> shouldTriggerIngestion berlinWinter fortnightSetup (Finite 1704150000000)"
proof -
  have h: "ingestion_type fortnightSetup \<noteq> Str ''Manual''"
    "frequency_unit fortnightSetup \<noteq> Str ''Month''"
    "minutesPerUnit (toStr (frequency_unit fortnightSetup)) = None"
    by (simp_all add: fortnightSetup_def dailySetup_def minutesPerUnit_def)
  from h(3) have h3: "minutesPerUnit (toStr (frequency_unit fortnightSetup)) = None \<or>
      parseInt (toStr (frequency_value fortnightSetup)) = NaN"
    by simp
  show ?thesis
    using shouldTriggerIngestion_NaN_period
            [OF h(1) h(2) h3, of berlinWinter "Finite 1704150000000"] h
    by simp
qed

section \<open>Properties of the configuration check\<close>

lemma scanRanges_fst: "fst (scanRanges nr names) = List.map_filter (findRange nr) names"
  by (induction names) (auto simp: List.map_filter_simps split: prod.splits option.splits)

lemma scanRanges_snd:
  "snd (scanRanges nr names) = filter (\<lambda>r. findRange nr r = None) names"
  by (induction names) (auto split: prod.splits option.splits)

lemma scanRanges_eq:
  "scanRanges nr names =
     (List.map_filter (findRange nr) names, filter (\<lambda>r. findRange nr r = None) names)"
  by (metis prod.collapse scanRanges_fst scanRanges_snd)

lemma filter_empty_list_ex: "(filter P xs = []) = (\<not> list_ex P xs)"
  by (induction xs) auto

lemma setupFields_setupOf: "length vs = 8 \<Longrightarrow> setupFields (setupOf vs) = vs"
  by (auto simp: setupFields_def setupOf_def nthOr_def intro!: nth_equalityI
      simp: nth_Cons' less_Suc_eq numeral_eq_Suc)

text \<open>What \<open>checkSetup\<close> returns once the named ranges have been read.\<close>

lemma checkSetup_cases:
  assumes "namedRangesOf sheets sheetID = Inr namedRanges"
  shows "checkSetup sheets sheetID =
     (if list_ex (\<lambda>r. findRange namedRanges r = None) rangeNames then Inr (None, False)
      else case batchGet sheets sheetID (List.map_filter (findRange namedRanges) rangeNames) of
             Inl e \<Rightarrow> Inl e
           | Inr fetched \<Rightarrow>
               Inr (Some (setupOf (map flatten fetched)),
                    \<not> list_ex isEmptyValue (map flatten fetched)))"
  using assms
  by (auto simp: checkSetup_def scanRanges_eq filter_empty_list_ex Let_def split: sum.splits)

lemma processSheet_invalid:
  assumes "checkSetup sheets sheetID = Inr (su, False)"
  shows "processSheet F sheets env processID (sheetID, sheetName) w =
           (Inr (), w\<lparr>console := console w @
              [CheckingSheet sheetName sheetID, NotValidForIngestion sheetName]\<rparr>)"
  using assms by (simp add: processSheet_def andThen_def consoleLog_def)

lemma checkSetup_blank: "checkSetup demoSheets ''blank'' = Inr (Some blankSetup, False)"
  by code_simp

lemma namedRanges_blank:
  "namedRangesOf demoSheets ''blank'' =
     Inr (''unrelated'' # setupScoped ''table_name'' # rangeNames)"
  by (simp add: demoSheets_def)

lemma namedRanges_partial:
  "namedRangesOf demoSheets ''partial'' = Inr [''metadata_range'', ''data_range'']"
  by (simp add: demoSheets_def)

text \<open>
  C10. Once the named ranges of a document have been read: if one of the eight required
  ranges is not found, \<open>checkSetup\<close> returns \<open>validSetup = false\<close> with \<open>setup\<close> undefined;
  if all eight are found and one of the eight fetched values is empty, it returns
  \<open>validSetup = false\<close> with a \<open>setup\<close> object whose eight fields are the fetched values,
  the empty one among them.
\<close>

theorem checkSetup_undefined_or_populated:
  assumes "namedRangesOf sheets sheetID = Inr namedRanges"
  shows "(list_ex (\<lambda>rangeName. findRange namedRanges rangeName = None) rangeNames \<longrightarrow>
            checkSetup sheets sheetID = Inr (None, False)) \<and>
         (\<not> list_ex (\<lambda>rangeName. findRange namedRanges rangeName = None) rangeNames \<and>
          batchGet sheets sheetID (List.map_filter (findRange namedRanges) rangeNames) =
            Inr fetched \<and>
          length fetched = 8 \<and> list_ex isEmptyValue (map flatten fetched) \<longrightarrow>
            checkSetup sheets sheetID = Inr (Some (setupOf (map flatten fetched)), False) \<and>
            setupFields (setupOf (map flatten fetched)) = map flatten fetched \<and>
            list_ex isEmptyValue (setupFields (setupOf (map flatten fetched))))"
  using assms by (simp add: checkSetup_cases setupFields_setupOf)

theorem checkSetup_undefined_or_populated_witness:
  "namedRangesOf demoSheets ''partial'' = Inr [''metadata_range'', ''data_range''] \<and>
   list_ex (\<lambda>rangeName. findRange [''metadata_range'', ''data_range''] rangeName = None)
     rangeNames \<and>
   checkSetup demoSheets ''partial'' = Inr (None, False) \<and>
   namedRangesOf demoSheets ''blank'' =
     Inr (''unrelated'' # setupScoped ''table_name'' # rangeNames) \<and>
   length blankValues = 8 \<and> list_ex isEmptyValue (map flatten blankValues) \<and>
   checkSetup demoSheets ''blank'' = Inr (Some (setupOf (map flatten blankValues)), False) \<and>
   table_name (setupOf (map flatten blankValues)) = Undefined \<and>
   data_range (setupOf (map flatten blankValues)) = Str ''Data!A2:B4''"
proof -
  have m: "list_ex (\<lambda>rangeName. findRange [''metadata_range'', ''data_range''] rangeName = None)
             rangeNames"
    by code_simp
  have f: "\<not> list_ex (\<lambda>rangeName.
             findRange (''unrelated'' # setupScoped ''table_name'' # rangeNames) rangeName = None)
             rangeNames"
    by code_simp
  have b: "batchGet demoSheets ''blank''
             (List.map_filter (findRange (''unrelated'' # setupScoped ''table_name'' # rangeNames))
                rangeNames) = Inr blankValues"
    by (simp add: demoSheets_def)
  have l: "length blankValues = 8"
    by (simp add: blankValues_def goodValues_def)
  have e: "list_ex isEmptyValue (map flatten blankValues)"
    by code_simp
  have v: "table_name (setupOf (map flatten blankValues)) = Undefined"
    "data_range (setupOf (map flatten blankValues)) = Str ''Data!A2:B4''"
    by code_simp+
  show ?thesis
    using checkSetup_undefined_or_populated [OF namedRanges_partial, of blankValues]
      checkSetup_undefined_or_populated [OF namedRanges_blank, of blankValues]
      m f b l e v namedRanges_partial namedRanges_blank
    by simp
qed

text \<open>
  C4, as stated, fails in its middle part: for the document \<open>blank\<close>, whose table name is
  empty, \<open>checkSetup\<close> hands the caller a configuration object in which the table name is
  undefined and the other fields are filled in (next to \<open>validSetup = false\<close>).
\<close>

theorem checkSetup_returns_blank_config_counterexample:
  "checkSetup demoSheets ''blank'' = Inr (Some blankSetup, False) \<and>
   table_name blankSetup = Undefined \<and>
   data_range blankSetup = Str ''Data!A2:B4'' \<and>
   frequency_unit blankSetup = Str ''Day''"
  by (simp add: checkSetup_blank) (simp add: blankSetup_def dailySetup_def)

text \<open>
  C4, amended. Whenever \<open>checkSetup\<close> returns: (1) if one of the eight required ranges is
  not found, or one of the fetched values is empty, then \<open>validSetup\<close> is false; (2) when
  \<open>validSetup\<close> is false the orchestrator only prints two console lines for the sheet, so
  the configuration reaches neither the schedule check nor the load (no request is sent
  to the database); (3) when \<open>validSetup\<close> is true, the configuration object is built from
  the fetched values and none of them is empty.
\<close>

theorem checkSetup_invalid_never_processed:
  assumes "checkSetup sheets sheetID = Inr (su, validSetup)"
      and "namedRangesOf sheets sheetID = Inr namedRanges"
  shows "((list_ex (\<lambda>r. findRange namedRanges r = None) rangeNames \<or>
           (\<exists>fetched. batchGet sheets sheetID
                         (List.map_filter (findRange namedRanges) rangeNames) = Inr fetched \<and>
                       list_ex isEmptyValue (map flatten fetched))) \<longrightarrow> \<not> validSetup) \<and>
         (\<not> validSetup \<longrightarrow>
            processSheet F sheets env processID (sheetID, sheetName) w =
              (Inr (), w\<lparr>console := console w @
                 [CheckingSheet sheetName sheetID, NotValidForIngestion sheetName]\<rparr>)) \<and>
         (validSetup \<longrightarrow>
            (\<exists>fetched. batchGet sheets sheetID
                          (List.map_filter (findRange namedRanges) rangeNames) = Inr fetched \<and>
                        su = Some (setupOf (map flatten fetched)) \<and>
                        \<not> list_ex isEmptyValue (map flatten fetched) \<and>
                        (length fetched = 8 \<longrightarrow>
                           \<not> list_ex isEmptyValue (setupFields (setupOf (map flatten fetched))))))"
proof (intro conjI impI)
  assume "list_ex (\<lambda>r. findRange namedRanges r = None) rangeNames \<or>
           (\<exists>fetched. batchGet sheets sheetID
                         (List.map_filter (findRange namedRanges) rangeNames) = Inr fetched \<and>
                       list_ex isEmptyValue (map flatten fetched))"
  then show "\<not> validSetup"
    using assms by (auto simp: checkSetup_cases split: if_splits sum.splits)
next
  assume "\<not> validSetup"
  with assms(1) show "processSheet F sheets env processID (sheetID, sheetName) w =
              (Inr (), w\<lparr>console := console w @
                 [CheckingSheet sheetName sheetID, NotValidForIngestion sheetName]\<rparr>)"
    by (simp add: processSheet_invalid)
next
  assume "validSetup"
  then show "\<exists>fetched. batchGet sheets sheetID
                          (List.map_filter (findRange namedRanges) rangeNames) = Inr fetched \<and>
                        su = Some (setupOf (map flatten fetched)) \<and>
                        \<not> list_ex isEmptyValue (map flatten fetched) \<and>
                        (length fetched = 8 \<longrightarrow>
                           \<not> list_ex isEmptyValue (setupFields (setupOf (map flatten fetched))))"
    using assms by (auto simp: checkSetup_cases setupFields_setupOf split: if_splits sum.splits)
qed

theorem checkSetup_invalid_never_processed_witness:
  "checkSetup demoSheets ''blank'' = Inr (Some blankSetup, False) \<and>
   namedRangesOf demoSheets ''blank'' =
     Inr (''unrelated'' # setupScoped ''table_name'' # rangeNames) \<and>
   processSheet noFault demoSheets berlinWinter 1704150000000 (''blank'', ''Blank'') emptyWorld =
     (Inr (), emptyWorld\<lparr>console :=
                 [CheckingSheet ''Blank'' ''blank'', NotValidForIngestion ''Blank'']\<rparr>)"
  using checkSetup_invalid_never_processed
          [OF checkSetup_blank namedRanges_blank,
           of noFault berlinWinter 1704150000000 "''Blank''" emptyWorld]
    checkSetup_blank namedRanges_blank
  by (simp add: emptyWorld_def)

section \<open>Properties of provisioning and loading\<close>

subsection \<open>Actions and requests\<close>

lemma andThen_Inr:
  "(andThen m k w = (Inr y, w')) = (\<exists>x w1. m w = (Inr x, w1) \<and> k x w1 = (Inr y, w'))"
  by (auto simp: andThen_def split: prod.splits sum.splits)

lemma andThen_ok: "m w = (Inr x, w1) \<Longrightarrow> andThen m k w = k x w1"
  by (simp add: andThen_def)





lemma exec_console: "console (snd (exec F q w)) = console w"
  by (cases q) (auto simp: exec_def Let_def split: option.splits)

lemma exec_Connect_Inr:
  "(exec F Connect w = (Inr u, w')) =
     (\<not> F (length (sent w)) Connect \<and> w' = w\<lparr>sent := sent w @ [Connect]\<rparr>)"
  by (auto simp: exec_def Let_def)

lemma exec_Begin_Inr:
  "(exec F Begin w = (Inr u, w')) =
     (\<not> F (length (sent w)) Begin \<and>
      w' = w\<lparr>sent := sent w @ [Begin],
             pending := Some (case pending w of None \<Rightarrow> committed w | Some s \<Rightarrow> s)\<rparr>)"
  by (auto simp: exec_def Let_def split: option.splits)

lemma exec_Commit_Inr:
  "(exec F Commit w = (Inr u, w')) =
     (\<not> F (length (sent w)) Commit \<and>
      w' = w\<lparr>sent := sent w @ [Commit],
             committed := (case pending w of None \<Rightarrow> committed w | Some s \<Rightarrow> s),
             pending := None\<rparr>)"
  by (auto simp: exec_def Let_def split: option.splits)



lemma exec_data_Inr:
  assumes "isData q" "pending w = Some s"
  shows "(exec F q w = (Inr u, w')) =
     (\<not> F (length (sent w)) q \<and>
      (\<exists>s'. applyStmt q s = Some s' \<and> w' = w\<lparr>sent := sent w @ [q], pending := Some s'\<rparr>))"
  using assms by (cases q) (auto simp: exec_def Let_def isData_def split: option.splits)







lemma keeps_succeed: "keeps P (succeed x)"
  by (simp add: keeps_def succeed_def)


lemma tryCatch_Inr:
  "(tryCatch m h w = (Inr y, w')) =
     (m w = (Inr y, w') \<or> (\<exists>e w1. m w = (Inl e, w1) \<and> h e w1 = (Inr y, w')))"
  by (auto simp: tryCatch_def split: prod.splits sum.splits)


lemma andThen_assoc: "andThen (andThen m k) h = andThen m (\<lambda>x. andThen (k x) h)"
  by (rule ext) (auto simp: andThen_def split: prod.splits sum.splits)



lemma exec_InsertLog_Inr:
  assumes "pending w = Some s"
  shows "(exec F (InsertLog e) w = (Inr u, w')) =
     (\<not> F (length (sent w)) (InsertLog e) \<and> tables s log_table_name \<noteq> None \<and>
      w' = w\<lparr>sent := sent w @ [InsertLog e],
             pending := Some (s\<lparr>tables := addLogRow e (tables s)\<rparr>)\<rparr>)"
  using assms
  by (auto simp: exec_data_Inr isData_def appendRows_def addLogRow_def split: option.splits)

lemma insertLogEntry_Inr:
  assumes "insertLogEntry F processID sheetID d c m w = (Inr u, w')" "pending w = None"
  shows "sent w' = sent w @ [Connect, Begin, InsertLog (logRow processID sheetID d c m), Commit] \<and>
         console w' = console w \<and> pending w' = None \<and>
         tables (committed w) log_table_name \<noteq> None \<and>
         tables (committed w') = addLogRow (logRow processID sheetID d c m) (tables (committed w))"
  using assms
  unfolding insertLogEntry_def logRow_def [symmetric]
  by (auto simp: andThen_Inr tryCatch_Inr throw_def exec_Connect_Inr exec_Begin_Inr
      exec_Commit_Inr exec_InsertLog_Inr)







subsection \<open>Column definitions read back\<close>











subsection \<open>Provisioning\<close>






lemma addLogRow_at:
  "T t = Some tb \<Longrightarrow>
     addLogRow e T t =
       Some (tb\<lparr>rows := rows tb @ (if t = log_table_name then [LogRow e] else [])\<rparr>)"
  by (auto simp: addLogRow_def split: option.splits)










lemma rates_pgName: "pgName ''raw_gsheets.rates'' = ''raw_gsheets.rates''"
  by code_simp




subsection \<open>The batch loop\<close>

declare insertBatches.simps [simp del] batchesFrom.simps [simp del]


lemma nth_concat_uniform:
  "list_all (\<lambda>x. length x = n) xs \<Longrightarrow> r < length xs \<Longrightarrow> j < n \<Longrightarrow>
     concat xs ! (r * n + j) = xs ! r ! j"
proof (induction xs arbitrary: r)
  case Nil
  then show ?case by simp
next
  case (Cons x xs)
  show ?case
  proof (cases r)
    case 0
    with Cons.prems show ?thesis by (simp add: nth_append)
  next
    case (Suc r')
    with Cons.prems have "concat xs ! (r' * n + j) = xs ! r' ! j"
      by (intro Cons.IH) simp_all
    moreover from Cons.prems have "length x = n" by simp
    ultimately show ?thesis using Suc by (simp add: nth_append)
  qed
qed

text \<open>The numeric pattern on some values.\<close>

lemma isNumeric_examples:
  "map isNumeric [''1,234.5'', ''-12'', ''1,2,3'', ''0.50'', ''1000''] =
     [True, True, True, True, True]"
  "map isNumeric [''1,'', '',1'', ''1.'', ''1.5,3'', ''12a'', [], ''-'', ''1,,2'', '' 1''] =
     [False, False, False, False, False, False, False, False, False]"
  by code_simp+

lemma length_normalizeRow: "length (normalizeRow r) = length r"
  by (simp add: normalizeRow_def)

lemma nth_normalizeRow:
  "j < length r \<Longrightarrow>
     normalizeRow r ! j =
       (if j = 1 \<and> isNumeric (r ! j) then cleanNumericValue (r ! j) else r ! j)"
  by (simp add: normalizeRow_def nth_enumerate_eq)

lemma length_placeholdersOf: "length (placeholdersOf batch) = length batch"
  by (simp add: placeholdersOf_def)

lemma nth_placeholdersOf:
  "r < length batch \<Longrightarrow>
     placeholdersOf batch ! r =
       map (\<lambda>index. r * length (batch ! r) + index + 1) [0..<length (batch ! r)]"
  by (simp add: placeholdersOf_def nth_enumerate_eq)

lemma resolveRows_placeholdersOf:
  assumes "list_all (\<lambda>r. length r = n) batch"
  shows "resolveRows (placeholdersOf batch) (concat (map normalizeRow batch)) =
           map normalizeRow batch"
proof (rule nth_equalityI)
  show "length (resolveRows (placeholdersOf batch) (concat (map normalizeRow batch))) =
          length (map normalizeRow batch)"
    by (simp add: resolveRows_def length_placeholdersOf)
next
  fix r assume "r < length (resolveRows (placeholdersOf batch) (concat (map normalizeRow batch)))"
  then have r: "r < length batch"
    by (simp add: resolveRows_def length_placeholdersOf)
  from assms r have n: "length (batch ! r) = n"
    by (simp add: list_all_length)
  from assms have u: "list_all (\<lambda>x. length x = n) (map normalizeRow batch)"
    by (simp add: list_all_iff length_normalizeRow)
  have "map (\<lambda>k. concat (map normalizeRow batch) ! (k - 1))
          (map (\<lambda>index. r * n + index + 1) [0..<n]) = normalizeRow (batch ! r)"
  proof (rule nth_equalityI)
    show "length (map (\<lambda>k. concat (map normalizeRow batch) ! (k - 1))
            (map (\<lambda>index. r * n + index + 1) [0..<n])) = length (normalizeRow (batch ! r))"
      by (simp add: length_normalizeRow n)
  next
    fix j assume "j < length (map (\<lambda>k. concat (map normalizeRow batch) ! (k - 1))
            (map (\<lambda>index. r * n + index + 1) [0..<n]))"
    then have j: "j < n" by simp
    from nth_concat_uniform [OF u _ j, of r] r
    have "concat (map normalizeRow batch) ! (r * n + j) = normalizeRow (batch ! r) ! j"
      by simp
    with j show "map (\<lambda>k. concat (map normalizeRow batch) ! (k - 1))
            (map (\<lambda>index. r * n + index + 1) [0..<n]) ! j = normalizeRow (batch ! r) ! j"
      by simp
  qed
  with r n show "resolveRows (placeholdersOf batch) (concat (map normalizeRow batch)) ! r =
          map normalizeRow batch ! r"
    by (simp add: resolveRows_def length_placeholdersOf nth_placeholdersOf)
qed

lemma wellFormedInsert_uniform:
  assumes "wellFormedInsert cols (placeholdersOf batch) vals"
  shows "list_all (\<lambda>r. length r = length cols) batch"
  unfolding list_all_length
proof (intro allI impI)
  fix r assume r: "r < length batch"
  with assms have "length (placeholdersOf batch ! r) = length cols"
    by (simp add: wellFormedInsert_def list_all_length length_placeholdersOf)
  with r show "length (batch ! r) = length cols"
    by (simp add: nth_placeholdersOf)
qed

text \<open>One accepted insert of a batch, on the working copy of the transaction.\<close>

lemma exec_insertStmt_Inr:
  assumes "exec F (insertStmt tbl colsText batch) w = (Inr u, w')" "pending w = Some s"
    "tables s (pgName tbl) = Some tb"
  shows "w' = w\<lparr>sent := sent w @ [insertStmt tbl colsText batch],
                 pending := Some (s\<lparr>tables := (tables s)
                    (pgName tbl \<mapsto>
                       tb\<lparr>rows := rows tb @ map DataRow (map normalizeRow batch)\<rparr>)\<rparr>)\<rparr>"
proof -
  from assms obtain cols where
    wf: "wellFormedInsert cols (placeholdersOf batch) (concat (map normalizeRow batch))"
    by (auto simp: exec_data_Inr isData_def insertStmt_def split: if_splits option.splits)
  from resolveRows_placeholdersOf [OF wellFormedInsert_uniform [OF wf]] assms
  show ?thesis
    by (auto simp: exec_data_Inr isData_def insertStmt_def appendRows_def
             split: if_splits option.splits)
qed

lemma insertBatches_unfold:
  "insertBatches F tbl cols d i itter w =
     (if i < length d then
        (case exec F (insertStmt tbl cols (slice d i (i + batchSize))) w of
           (Inl e, w') \<Rightarrow> (Inl e, w')
         | (Inr u, w') \<Rightarrow> insertBatches F tbl cols d (i + batchSize) (itter + 1) w')
      else (Inr itter, w))"
  by (subst insertBatches.simps) (simp add: insertStmt_def Let_def)

lemma slice_drop: "slice d i (i + batchSize) @ drop (i + batchSize) d = drop i d"
  by (simp add: slice_def) (metis add.commute append_take_drop_id drop_drop)

lemma insertBatches_Inr:
  assumes "insertBatches F tbl cols d i itter w = (Inr n, w')"
    and "pending w = Some s" and "tables s (pgName tbl) = Some tb"
  shows "n = itter + length (batchesFrom d i) \<and>
         sent w' = sent w @ map (insertStmt tbl cols) (batchesFrom d i) \<and>
         committed w' = committed w \<and> console w' = console w \<and>
         pending w' = Some (s\<lparr>tables := (tables s)
                    (pgName tbl \<mapsto> tb\<lparr>rows := rows tb @ map DataRow (map normalizeRow (drop i d))\<rparr>)\<rparr>)"
  using assms
proof (induction F tbl cols d i itter w arbitrary: s tb rule: insertBatches.induct)
  case (1 F tbl cols d i itter w)
  show ?case
  proof (cases "i < length d")
    case False
    from "1.prems"(3) have "(tables s)(pgName tbl \<mapsto> tb) = tables s"
      by (rule map_upd_triv)
    with False "1.prems" show ?thesis
      by (simp add: insertBatches_unfold batchesFrom.simps [of d i])
  next
    case True
    let ?batch = "slice d i (i + batchSize)"
    from "1.prems"(1) True obtain w1 where
      e: "exec F (insertStmt tbl cols ?batch) w = (Inr (), w1)" and
      r: "insertBatches F tbl cols d (i + batchSize) (itter + 1) w1 = (Inr n, w')"
      by (subst (asm) insertBatches_unfold) (auto split: prod.splits sum.splits)
    note w1 = exec_insertStmt_Inr [OF e "1.prems"(2,3)]
    let ?s1 = "s\<lparr>tables := (tables s)(pgName tbl \<mapsto> tb\<lparr>rows := rows tb @ map DataRow (map normalizeRow ?batch)\<rparr>)\<rparr>"
    have p1: "pending w1 = Some ?s1" by (simp add: w1)
    have t1: "tables ?s1 (pgName tbl) = Some (tb\<lparr>rows := rows tb @ map DataRow (map normalizeRow ?batch)\<rparr>)" by simp
    from e have e': "exec F (InsertRows tbl cols (placeholdersOf ?batch) (concat (map normalizeRow ?batch))) w = (Inr (), w1)"
      by (simp add: insertStmt_def)
    have ih: "n = itter + 1 + length (batchesFrom d (i + batchSize)) \<and>
         sent w' = sent w1 @ map (insertStmt tbl cols) (batchesFrom d (i + batchSize)) \<and>
         committed w' = committed w1 \<and> console w' = console w1 \<and>
         pending w' = Some (?s1\<lparr>tables := (tables ?s1)
                    (pgName tbl \<mapsto> (tb\<lparr>rows := rows tb @ map DataRow (map normalizeRow ?batch)\<rparr>)
                       \<lparr>rows := rows (tb\<lparr>rows := rows tb @ map DataRow (map normalizeRow ?batch)\<rparr>) @
                          map DataRow (map normalizeRow (drop (i + batchSize) d))\<rparr>)\<rparr>)"
      by (rule "1.IH" [OF True refl refl refl e' [symmetric] refl r p1 t1])
    have m: "map DataRow (map normalizeRow ?batch) @ map DataRow (map normalizeRow (drop (i + batchSize) d)) =
               map DataRow (map normalizeRow (drop i d))"
      by (simp add: slice_drop flip: map_append)
    have b: "batchesFrom d i = ?batch # batchesFrom d (i + batchSize)"
      using True by (subst batchesFrom.simps) simp
    from ih have "pending w' = Some (s\<lparr>tables := (tables s)
           (pgName tbl \<mapsto> tb\<lparr>rows := rows tb @ (map DataRow (map normalizeRow ?batch) @
               map DataRow (map normalizeRow (drop (i + batchSize) d)))\<rparr>)\<rparr>)"
      by simp
    then have "pending w' = Some (s\<lparr>tables := (tables s)
           (pgName tbl \<mapsto> tb\<lparr>rows := rows tb @ map DataRow (map normalizeRow (drop i d))\<rparr>)\<rparr>)"
      unfolding m .
    moreover from ih have "n = itter + length (batchesFrom d i)"
      "sent w' = sent w @ map (insertStmt tbl cols) (batchesFrom d i)"
      "committed w' = committed w" "console w' = console w"
      by (simp_all add: b w1)
    ultimately show ?thesis by blast
  qed
qed



lemma loadSteps_Inr:
  assumes "loadSteps F tbl cols d w0 = (Inr n, w1)"
  shows "\<exists>s0 tb0. s0 = (case pending w0 of None \<Rightarrow> committed w0 | Some s \<Rightarrow> s) \<and>
           tables s0 (pgName tbl) = Some tb0 \<and>
           n = length (batchesFrom d 0) \<and>
           sent w1 = sent w0 @ [Begin, Truncate tbl] @ map (insertStmt tbl cols) (batchesFrom d 0) \<and>
           committed w1 = committed w0 \<and> console w1 = console w0 \<and>
           pending w1 = Some (s0\<lparr>tables := (tables s0)
                                 (pgName tbl \<mapsto> tb0\<lparr>rows := map DataRow (map normalizeRow d)\<rparr>)\<rparr>)"
proof -
  let ?s0 = "case pending w0 of None \<Rightarrow> committed w0 | Some s \<Rightarrow> s"
  from assms obtain wa wb where
    a: "exec F Begin w0 = (Inr (), wa)" and
    b: "exec F (Truncate tbl) wa = (Inr (), wb)" and
    c: "insertBatches F tbl cols d 0 0 wb = (Inr n, w1)"
    unfolding loadSteps_def by (auto simp: andThen_Inr)
  from a have wa: "wa = w0\<lparr>sent := sent w0 @ [Begin], pending := Some ?s0\<rparr>"
    by (simp add: exec_Begin_Inr)
  then have pa: "pending wa = Some ?s0" by simp
  from b pa obtain tb0 where
    t0: "tables ?s0 (pgName tbl) = Some tb0" and
    wb: "wb = wa\<lparr>sent := sent wa @ [Truncate tbl],
                  pending := Some (?s0\<lparr>tables := (tables ?s0)(pgName tbl \<mapsto> tb0\<lparr>rows := []\<rparr>)\<rparr>)\<rparr>"
    by (auto simp: exec_data_Inr isData_def split: option.splits if_splits)
  let ?s1 = "?s0\<lparr>tables := (tables ?s0)(pgName tbl \<mapsto> tb0\<lparr>rows := []\<rparr>)\<rparr>"
  have pb: "pending wb = Some ?s1" by (simp add: wb)
  have tb: "tables ?s1 (pgName tbl) = Some (tb0\<lparr>rows := []\<rparr>)" by simp
  from insertBatches_Inr [OF c pb tb]
  have "n = length (batchesFrom d 0)"
    "sent w1 = sent wb @ map (insertStmt tbl cols) (batchesFrom d 0)"
    "committed w1 = committed wb" "console w1 = console wb"
    "pending w1 = Some (?s0\<lparr>tables := (tables ?s0)(pgName tbl \<mapsto> tb0\<lparr>rows := map DataRow (map normalizeRow d)\<rparr>)\<rparr>)"
    by simp_all
  with t0 show ?thesis by (simp add: wa wb)
qed

lemma insertDataToPostgres_alt:
  "insertDataToPostgres F processID sheetID (Some d) cols tbl =
     andThen (exec F Connect) (\<lambda>_.
       tryCatch
         (andThen (loadSteps F tbl cols d) (\<lambda>itter.
          andThen (exec F Commit) (\<lambda>_.
          insertLogEntry F processID sheetID (TableRepopulated tbl itter batchSize) info None)))
         (\<lambda>e. andThen (exec F Rollback) (\<lambda>_.
              andThen (insertLogEntry F processID sheetID
                         (TableIngestionFailed tbl) err (Some e)) (\<lambda>_.
              throw e))))"
  by (simp add: insertDataToPostgres_def loadSteps_def andThen_assoc)

text \<open>What a load that returns has done.\<close>

lemma insertDataToPostgres_Inr:
  assumes "insertDataToPostgres F processID sheetID (Some d) cols tbl w = (Inr (), w')"
  shows "\<exists>tb0. tables (case pending w of None \<Rightarrow> committed w | Some s \<Rightarrow> s) (pgName tbl) = Some tb0 \<and>
           sent w' = sent w @ [Connect, Begin, Truncate tbl] @
             map (insertStmt tbl cols) (batchesFrom d 0) @
             [Commit, Connect, Begin,
              InsertLog (logRow processID sheetID
                (TableRepopulated tbl (length (batchesFrom d 0)) batchSize) info None),
              Commit] \<and>
           tables (committed w') (pgName tbl) =
             Some (tb0\<lparr>rows := map DataRow (map normalizeRow d) @
                     (if pgName tbl = log_table_name
                      then [LogRow (logRow processID sheetID
                              (TableRepopulated tbl (length (batchesFrom d 0)) batchSize)
                              info None)]
                      else [])\<rparr>) \<and>
           console w' = console w"
proof -
  from assms obtain n wa wb wc where
    a: "exec F Connect w = (Inr (), wa)" and
    b: "loadSteps F tbl cols d wa = (Inr n, wb)" and
    c: "exec F Commit wb = (Inr (), wc)" and
    l: "insertLogEntry F processID sheetID (TableRepopulated tbl n batchSize) info None wc =
          (Inr (), w')"
    by (auto simp: insertDataToPostgres_alt andThen_Inr tryCatch_Inr throw_def)
  from a have wa: "wa = w\<lparr>sent := sent w @ [Connect]\<rparr>"
    by (simp add: exec_Connect_Inr)
  let ?s0 = "case pending w of None \<Rightarrow> committed w | Some s \<Rightarrow> s"
  let ?e = "logRow processID sheetID
              (TableRepopulated tbl (length (batchesFrom d 0)) batchSize) info None"
  have eq: "(case pending wa of None \<Rightarrow> committed wa | Some s \<Rightarrow> s) = ?s0"
    by (simp add: wa split: option.splits)
  have sa: "sent wa = sent w @ [Connect]" "console wa = console w"
    by (simp_all add: wa)
  from loadSteps_Inr [OF b] obtain tb0 where
    t0: "tables ?s0 (pgName tbl) = Some tb0" and
    n: "n = length (batchesFrom d 0)" and
    sb: "sent wb = sent w @ [Connect, Begin, Truncate tbl] @
           map (insertStmt tbl cols) (batchesFrom d 0)" and
    cb: "console wb = console w" and
    pb: "pending wb = Some (?s0\<lparr>tables := (tables ?s0)
           (pgName tbl \<mapsto> tb0\<lparr>rows := map DataRow (map normalizeRow d)\<rparr>)\<rparr>)"
    unfolding eq sa by auto
  from c pb have wc: "wc = wb\<lparr>sent := sent wb @ [Commit],
        committed := ?s0\<lparr>tables := (tables ?s0)
           (pgName tbl \<mapsto> tb0\<lparr>rows := map DataRow (map normalizeRow d)\<rparr>)\<rparr>,
        pending := None\<rparr>"
    by (simp add: exec_Commit_Inr)
  then have pc: "pending wc = None" by simp
  note lw = insertLogEntry_Inr [OF l pc]
  from wc have tc: "tables (committed wc) (pgName tbl) =
      Some (tb0\<lparr>rows := map DataRow (map normalizeRow d)\<rparr>)"
    by simp
  from lw n have "tables (committed w') (pgName tbl) = addLogRow ?e (tables (committed wc)) (pgName tbl)"
    by simp
  also have "\<dots> = Some ((tb0\<lparr>rows := map DataRow (map normalizeRow d)\<rparr>)
      \<lparr>rows := rows (tb0\<lparr>rows := map DataRow (map normalizeRow d)\<rparr>) @
         (if pgName tbl = log_table_name then [LogRow ?e] else [])\<rparr>)"
    using tc by (rule addLogRow_at)
  finally have t': "tables (committed w') (pgName tbl) =
             Some (tb0\<lparr>rows := map DataRow (map normalizeRow d) @
                     (if pgName tbl = log_table_name then [LogRow ?e] else [])\<rparr>)"
    by simp
  from lw have s': "sent w' = sent wc @ [Connect, Begin, InsertLog (logRow processID sheetID
       (TableRepopulated tbl n batchSize) info None), Commit]" and c': "console w' = console wc"
    by simp_all
  have "sent w' = sent w @ [Connect, Begin, Truncate tbl] @
             map (insertStmt tbl cols) (batchesFrom d 0) @
             [Commit, Connect, Begin, InsertLog ?e, Commit]"
    using s' by (simp add: wc sb n)
  moreover have "console w' = console w"
    using c' by (simp add: wc cb)
  ultimately show ?thesis
    using t0 t' by blast
qed

lemma batchesFrom_unfold:
  "batchesFrom d i =
     (if i < length d then slice d i (i + batchSize) # batchesFrom d (i + batchSize) else [])"
  by (subst batchesFrom.simps) simp

lemma concat_batchesFrom: "concat (batchesFrom d i) = drop i d"
proof (induction d i rule: batchesFrom.induct)
  case (1 d i)
  show ?case
  proof (cases "i < length d")
    case True
    with 1 have "concat (batchesFrom d (i + batchSize)) = drop (i + batchSize) d" by simp
    moreover from True have "batchesFrom d i = slice d i (i + batchSize) # batchesFrom d (i + batchSize)"
      by (subst batchesFrom_unfold) simp
    ultimately show ?thesis by (simp add: slice_drop)
  next
    case False
    then have "batchesFrom d i = []" by (subst batchesFrom_unfold) simp
    with False show ?thesis by simp
  qed
qed

lemma div_step:
  fixes n i :: nat
  assumes "i < n"
  shows "(n - i + 99) div 100 = Suc ((n - (i + 100) + 99) div 100)"
proof (cases "n - i < 100")
  case True
  then have z: "n - (i + 100) = 0" by simp
  from assms True have "100 * 1 \<le> n - i + 99" "n - i + 99 < 100 * Suc 1" by simp_all
  then have "(n - i + 99) div 100 = 1" by (rule div_nat_eqI)
  with z show ?thesis by simp
next
  case False
  then obtain m where m: "n - i = m + 100"
    by (metis le_add_diff_inverse2 not_less)
  then have "n - (i + 100) = m" by simp
  moreover have "(m + 100 + 99) div 100 = Suc ((m + 99) div 100)"
    by (simp add: add.assoc add.commute [of 100 99] flip: add.assoc)
  ultimately show ?thesis using m by simp
qed

lemma length_batchesFrom: "length (batchesFrom d i) = (length d - i + 99) div 100"
proof (induction d i rule: batchesFrom.induct)
  case (1 d i)
  show ?case
  proof (cases "i < length d")
    case True
    from "1" [OF True]
    have ih: "length (batchesFrom d (i + batchSize)) = (length d - (i + batchSize) + 99) div 100" .
    from True have u: "batchesFrom d i = slice d i (i + batchSize) # batchesFrom d (i + batchSize)"
      by (subst batchesFrom_unfold) simp
    have "length (batchesFrom d i) = Suc ((length d - (i + 100) + 99) div 100)"
      unfolding u using ih by (simp only: list.size batchSize_def)
    then show ?thesis unfolding div_step [OF True] .
  next
    case False
    then have "batchesFrom d i = []" by (subst batchesFrom_unfold) simp
    with False show ?thesis by simp
  qed
qed

lemma nth_batchesFrom:
  "k < length (batchesFrom d i) \<Longrightarrow> batchesFrom d i ! k = take 100 (drop (i + 100 * k) d)"
proof (induction d i arbitrary: k rule: batchesFrom.induct)
  case (1 d i)
  show ?case
  proof (cases "i < length d")
    case False
    then have "batchesFrom d i = []" by (subst batchesFrom_unfold) simp
    with "1.prems" show ?thesis by simp
  next
    case True
    then have u: "batchesFrom d i = slice d i (i + batchSize) # batchesFrom d (i + batchSize)"
      by (subst batchesFrom_unfold) simp
    show ?thesis
    proof (cases k)
      case 0
      then show ?thesis unfolding u by (simp add: slice_def batchSize_def)
    next
      case (Suc k')
      with "1.prems" have "k' < length (batchesFrom d (i + batchSize))"
        unfolding u by simp
      from "1.IH" [OF True this]
      have "batchesFrom d (i + batchSize) ! k' = take 100 (drop (i + batchSize + 100 * k') d)" .
      moreover have "i + batchSize + 100 * k' = i + 100 * Suc k'"
        by (simp add: batchSize_def)
      ultimately show ?thesis unfolding u Suc by simp
    qed
  qed
qed

lemma batchesFrom_250:
  assumes "length d = 250"
  shows "map length (batchesFrom d 0) = [100, 100, 50]"
proof -
  have l: "length (batchesFrom d 0) = 3"
    using assms by (simp add: length_batchesFrom)
  then obtain a b c where abc: "batchesFrom d 0 = [a, b, c]"
    by (auto simp: length_Suc_conv numeral_3_eq_3)
  from l have "batchesFrom d 0 ! 0 = take 100 (drop (0 + 100 * 0) d)"
    "batchesFrom d 0 ! 1 = take 100 (drop (0 + 100 * 1) d)"
    "batchesFrom d 0 ! 2 = take 100 (drop (0 + 100 * 2) d)"
    by (simp_all only: nth_batchesFrom)
  then have "a = take 100 d" "b = take 100 (drop 100 d)" "c = take 100 (drop 200 d)"
    unfolding abc by simp_all
  with assms show ?thesis unfolding abc by simp
qed

lemma filter_isInsertRows_map:
  "filter isInsertRows (map (insertStmt tbl cols) bs) = map (insertStmt tbl cols) bs"
  by (induction bs) (simp_all add: isInsertRows_def insertStmt_def)

subsection \<open>Loading\<close>

text \<open>
  C5, amended. A load that returns has sent: the connection request, \<open>BEGIN\<close>, \<open>TRUNCATE\<close>,
  one parameterized multi-row insert per batch, \<open>COMMIT\<close>, and then the audit entry, which
  records the number of batches and the batch size. The batches are the consecutive
  slices of 100 rows (the last one shorter), \<open>(n + 99) div 100\<close> of them for \<open>n\<close> rows, and
  together they are the rows. The table then has as many rows as were loaded, and one
  more, the audit entry of the load, when the table is the log table. For 250 rows there
  are exactly 3 inserts, of 100, 100 and 50 rows.
\<close>

theorem insertDataToPostgres_chunks:
  assumes "insertDataToPostgres F processID sheetID (Some d) cols tbl w = (Inr (), w')"
  shows "sent w' = sent w @ [Connect, Begin, Truncate tbl] @
           map (insertStmt tbl cols) (batchesFrom d 0) @
           [Commit, Connect, Begin,
            InsertLog (logRow processID sheetID
              (TableRepopulated tbl (length (batchesFrom d 0)) batchSize) info None),
            Commit] \<and>
         length (batchesFrom d 0) = (length d + 99) div 100 \<and>
         (\<forall>k<length (batchesFrom d 0). batchesFrom d 0 ! k = take 100 (drop (100 * k) d)) \<and>
         concat (batchesFrom d 0) = d \<and>
         (\<exists>tb. tables (committed w') (pgName tbl) = Some tb \<and>
               length (rows tb) =
                 length d + (if pgName tbl = log_table_name then 1 else 0)) \<and>
         (length d = 250 \<longrightarrow>
            map length (batchesFrom d 0) = [100, 100, 50] \<and>
            length (filter isInsertRows (drop (length (sent w)) (sent w'))) = 3)"
proof -
  from insertDataToPostgres_Inr [OF assms] obtain tb0 where
    s: "sent w' = sent w @ [Connect, Begin, Truncate tbl] @
           map (insertStmt tbl cols) (batchesFrom d 0) @
           [Commit, Connect, Begin,
            InsertLog (logRow processID sheetID
              (TableRepopulated tbl (length (batchesFrom d 0)) batchSize) info None),
            Commit]" and
    t: "tables (committed w') (pgName tbl) =
          Some (tb0\<lparr>rows := map DataRow (map normalizeRow d) @
                  (if pgName tbl = log_table_name
                   then [LogRow (logRow processID sheetID
                           (TableRepopulated tbl (length (batchesFrom d 0)) batchSize)
                           info None)]
                   else [])\<rparr>)"
    by blast
  have d: "drop (length (sent w)) (sent w') =
             [Connect, Begin, Truncate tbl] @ map (insertStmt tbl cols) (batchesFrom d 0) @
             [Commit, Connect, Begin,
              InsertLog (logRow processID sheetID
                (TableRepopulated tbl (length (batchesFrom d 0)) batchSize) info None),
              Commit]"
    unfolding s by simp
  have n: "length (filter isInsertRows (drop (length (sent w)) (sent w'))) =
             length (batchesFrom d 0)"
    unfolding d by (simp add: filter_isInsertRows_map) (simp add: isInsertRows_def)
  have c1: "length (batchesFrom d 0) = (length d + 99) div 100"
    by (simp add: length_batchesFrom)
  have c2: "\<forall>k<length (batchesFrom d 0). batchesFrom d 0 ! k = take 100 (drop (100 * k) d)"
    by (simp add: nth_batchesFrom)
  have c3: "concat (batchesFrom d 0) = d"
    by (simp add: concat_batchesFrom)
  from t have c4: "\<exists>tb. tables (committed w') (pgName tbl) = Some tb \<and>
               length (rows tb) =
                 length d + (if pgName tbl = log_table_name then 1 else 0)"
    by simp
  have c5: "length d = 250 \<longrightarrow>
            map length (batchesFrom d 0) = [100, 100, 50] \<and>
            length (filter isInsertRows (drop (length (sent w)) (sent w'))) = 3"
  proof
    assume l: "length d = 250"
    then have "length (batchesFrom d 0) = 3" by (simp add: length_batchesFrom)
    with n batchesFrom_250 [OF l]
    show "map length (batchesFrom d 0) = [100, 100, 50] \<and>
            length (filter isInsertRows (drop (length (sent w)) (sent w'))) = 3"
      by simp
  qed
  from s c1 c2 c3 c4 c5 show ?thesis by blast
qed

text \<open>
  C7. After a load that returns, the rows of the table are the loaded rows, each passed
  through \<open>normalizeRow\<close> (followed by the audit entry of the load when the table is the log
  table): a row keeps its length; the value at index 1 has its commas removed if it
  matches the numeric pattern; every other value, and a value at index 1 that does not
  match, is unchanged.
\<close>

theorem insertDataToPostgres_normalizes_second_column:
  assumes "insertDataToPostgres F processID sheetID (Some d) cols tbl w = (Inr (), w')"
  shows "(\<exists>tb. tables (committed w') (pgName tbl) = Some tb \<and>
              rows tb = map DataRow (map normalizeRow d) @
                (if pgName tbl = log_table_name
                 then [LogRow (logRow processID sheetID
                         (TableRepopulated tbl (length (batchesFrom d 0)) batchSize)
                         info None)]
                 else [])) \<and>
         (\<forall>r j. j < length r \<longrightarrow>
            length (normalizeRow r) = length r \<and>
            normalizeRow r ! j =
              (if j = 1 \<and> isNumeric (r ! 1) then filter (\<lambda>c. c \<noteq> CHR '','') (r ! 1)
               else r ! j))"
proof -
  from insertDataToPostgres_Inr [OF assms] obtain tb0 where
    "tables (committed w') (pgName tbl) =
          Some (tb0\<lparr>rows := map DataRow (map normalizeRow d) @
                  (if pgName tbl = log_table_name
                   then [LogRow (logRow processID sheetID
                           (TableRepopulated tbl (length (batchesFrom d 0)) batchSize)
                           info None)]
                   else [])\<rparr>)"
    by blast
  then have "\<exists>tb. tables (committed w') (pgName tbl) = Some tb \<and>
              rows tb = map DataRow (map normalizeRow d) @
                (if pgName tbl = log_table_name
                 then [LogRow (logRow processID sheetID
                         (TableRepopulated tbl (length (batchesFrom d 0)) batchSize)
                         info None)]
                 else [])"
    by simp
  moreover have "\<forall>r j. j < length r \<longrightarrow>
            length (normalizeRow r) = length r \<and>
            normalizeRow r ! j =
              (if j = 1 \<and> isNumeric (r ! 1) then filter (\<lambda>c. c \<noteq> CHR '','') (r ! 1)
               else r ! j)"
    by (auto simp: length_normalizeRow nth_normalizeRow cleanNumericValue_def)
  ultimately show ?thesis by blast
qed


subsection \<open>The loads of the example data\<close>

lemma demoLoad_ok: "fst demoLoad = Inr ()"
  by code_simp

lemma demoLoad_rows:
  "map_option rows (tables (committed (snd demoLoad)) ''raw_gsheets.rates'') =
     Some [DataRow [''EUR'', ''1000''], DataRow [''U,S'', ''-1085.50''],
           DataRow [''GBP'', ''n/a,x''], DataRow [''1,5'', ''12,34x'']]"
  by code_simp

lemma demoData_numeric:
  "map (\<lambda>r. (isNumeric (r ! 0), isNumeric (r ! 1))) demoData =
     [(False, True), (False, True), (False, False), (True, False)]"
  by code_simp

lemma load250_ok: "fst load250 = Inr ()"
  by code_simp

lemma amounts_pgName:
  "pgName ''raw_gsheets.amounts'' = ''raw_gsheets.amounts''"
  "pgName ''raw_gsheets.amounts'' \<noteq> log_table_name"
  by code_simp+



lemma failedLoad_log:
  "map_option rows (tables (committed (snd failedLoad)) log_table_name) =
     Some [LogRow (logRow 1704150000000 ''good'' (TableIngestionFailed ''raw_gsheets.amounts'')
                     err (Some (DatabaseError 5)))]"
  by code_simp


text \<open>
  C5, as stated, fails on the row count when the table loaded is the log table, which a
  sheet with the table name \<open>gsheet_ingestion_log\<close> asks for: the load of 250 rows returns,
  and the table then holds 251 rows, the last one the audit entry of the load.
\<close>

theorem insertDataToPostgres_log_table_251_rows_counterexample:
  "length data250 = 250 \<and>
   fst logTargetLoad = Inr () \<and>
   pgName (''raw_gsheets.'' @ ''gsheet_ingestion_log'') = log_table_name \<and>
   map_option (\<lambda>tb. length (rows tb)) (tables (committed (snd logTargetLoad)) log_table_name) =
     Some 251"
  by code_simp

lemma amounts_not_log: "''raw_gsheets.amounts'' \<noteq> log_table_name"
  by code_simp

text \<open>On the example: 250 rows into \<open>raw_gsheets.amounts\<close>.\<close>

theorem insertDataToPostgres_chunks_witness:
  "fst load250 = Inr () \<and> length data250 = 250 \<and>
   map length (batchesFrom data250 0) = [100, 100, 50] \<and>
   batchesFrom data250 0 ! 2 = take 100 (drop 200 data250) \<and>
   length (filter isInsertRows (sent (snd load250))) = 3 \<and>
   pgName ''raw_gsheets.amounts'' \<noteq> log_table_name \<and>
   (\<exists>tb. tables (committed (snd load250)) ''raw_gsheets.amounts'' = Some tb \<and>
         length (rows tb) = 250)"
proof -
  have ok: "insertDataToPostgres noFault 1704150000000 ''good'' (Some data250)
              amountColumn ''raw_gsheets.amounts'' oldWorld = (Inr (), snd load250)"
    using load250_ok unfolding load250_def by (metis prod.collapse)
  have l: "length data250 = 250" by (simp add: data250_def)
  have s: "sent oldWorld = []" by (simp add: oldWorld_def)
  note th = insertDataToPostgres_chunks [OF ok]
  from th have a: "\<exists>tb. tables (committed (snd load250)) (pgName ''raw_gsheets.amounts'') = Some tb \<and>
             length (rows tb) =
               length data250 + (if pgName ''raw_gsheets.amounts'' = log_table_name then 1 else 0)"
    by blast
  from th have b: "length data250 = 250 \<longrightarrow>
             map length (batchesFrom data250 0) = [100, 100, 50] \<and>
             length (filter isInsertRows (drop (length (sent oldWorld)) (sent (snd load250)))) = 3"
    by blast
  from th have c: "\<forall>k<length (batchesFrom data250 0).
             batchesFrom data250 0 ! k = take 100 (drop (100 * k) data250)"
    by blast
  from b l s have b': "map length (batchesFrom data250 0) = [100, 100, 50]"
    "length (filter isInsertRows (sent (snd load250))) = 3"
    by simp_all
  from b'(1) have "length (batchesFrom data250 0) = 3"
    by (metis length_map list.size(3) list.size(4) One_nat_def Suc_eq_plus1 numeral_3_eq_3)
  with c have c': "batchesFrom data250 0 ! 2 = take 100 (drop 200 data250)"
    by simp
  from a l have a': "\<exists>tb. tables (committed (snd load250)) ''raw_gsheets.amounts'' = Some tb \<and>
         length (rows tb) = 250"
    by (simp add: amounts_pgName(1) amounts_not_log)
  from load250_ok l b' c' amounts_pgName(2) a' show ?thesis by blast
qed

text \<open>
  On the example, whose columns are both of type \<open>text\<close>: at index 1, \<open>1,000\<close> and
  \<open>-1,085.50\<close> match and lose their commas, \<open>n/a,x\<close> and \<open>12,34x\<close> do not match and keep
  theirs; at index 0, \<open>U,S\<close> and \<open>1,5\<close>, which matches, are unchanged.
\<close>

theorem insertDataToPostgres_normalizes_second_column_witness:
  "fst demoLoad = Inr () \<and>
   demoData = [[''EUR'', ''1,000''], [''U,S'', ''-1,085.50''], [''GBP'', ''n/a,x''],
               [''1,5'', ''12,34x'']] \<and>
   (\<exists>tb. tables (committed (snd demoLoad)) ''raw_gsheets.rates'' = Some tb \<and>
         rows tb = [DataRow [''EUR'', ''1000''], DataRow [''U,S'', ''-1085.50''],
                    DataRow [''GBP'', ''n/a,x''], DataRow [''1,5'', ''12,34x'']]) \<and>
   normalizeRow [''1,000'', ''2,000'', ''3,000''] ! 0 = ''1,000'' \<and>
   normalizeRow [''1,000'', ''2,000'', ''3,000''] ! 1 = ''2000'' \<and>
   normalizeRow [''1,000'', ''2,000'', ''3,000''] ! 2 = ''3,000'' \<and>
   normalizeRow [''1,000'', ''2,0a'', ''3,000''] ! 1 = ''2,0a''"
proof -
  have ok: "insertDataToPostgres noFault 1704150000000 ''good'' (Some demoData)
              ratesColumns ''raw_gsheets.rates'' oldWorld = (Inr (), snd demoLoad)"
    using demoLoad_ok unfolding demoLoad_def by (metis prod.collapse)
  note th = insertDataToPostgres_normalizes_second_column [OF ok]
  have m: "isNumeric ([''1,000'', ''2,000'', ''3,000''] ! 1)"
          "\<not> isNumeric ([''1,000'', ''2,0a'', ''3,000''] ! 1)"
    by code_simp+
  from th obtain tb where
    t: "tables (committed (snd demoLoad)) (pgName ''raw_gsheets.rates'') = Some tb"
       "rows tb = map DataRow (map normalizeRow demoData) @
          (if pgName ''raw_gsheets.rates'' = log_table_name
           then [LogRow (logRow 1704150000000 ''good''
                   (TableRepopulated ''raw_gsheets.rates'' (length (batchesFrom demoData 0))
                      batchSize) info None)]
           else [])"
    by blast
  from t(1) demoLoad_rows have
    "rows tb = [DataRow [''EUR'', ''1000''], DataRow [''U,S'', ''-1085.50''],
                DataRow [''GBP'', ''n/a,x''], DataRow [''1,5'', ''12,34x'']]"
    by (simp add: rates_pgName)
  with t(1) have a: "\<exists>tb. tables (committed (snd demoLoad)) ''raw_gsheets.rates'' = Some tb \<and>
         rows tb = [DataRow [''EUR'', ''1000''], DataRow [''U,S'', ''-1085.50''],
                    DataRow [''GBP'', ''n/a,x''], DataRow [''1,5'', ''12,34x'']]"
    by (simp add: rates_pgName)
  from th have n: "\<And>r j. j < length r \<Longrightarrow> normalizeRow r ! j =
              (if j = 1 \<and> isNumeric (r ! 1) then filter (\<lambda>c. c \<noteq> CHR '','') (r ! 1)
               else r ! j)"
    by blast
  from n [of 0 "[''1,000'', ''2,000'', ''3,000'']"]
  have n0: "normalizeRow [''1,000'', ''2,000'', ''3,000''] ! 0 = ''1,000''" by simp
  from n [of 1 "[''1,000'', ''2,000'', ''3,000'']"] m(1)
  have n1: "normalizeRow [''1,000'', ''2,000'', ''3,000''] ! 1 = ''2000''" by simp
  from n [of 2 "[''1,000'', ''2,000'', ''3,000'']"]
  have n2: "normalizeRow [''1,000'', ''2,000'', ''3,000''] ! 2 = ''3,000''" by simp
  from n [of 1 "[''1,000'', ''2,0a'', ''3,000'']"] m(2)
  have n3: "normalizeRow [''1,000'', ''2,0a'', ''3,000''] ! 1 = ''2,0a''" by simp
  have d: "demoData = [[''EUR'', ''1,000''], [''U,S'', ''-1,085.50''], [''GBP'', ''n/a,x''],
               [''1,5'', ''12,34x'']]"
    by (simp add: demoData_def)
  from demoLoad_ok d a n0 n1 n2 n3 show ?thesis by blast
qed



section \<open>Properties of the orchestrator\<close>


text \<open>
  \<open>ingestCycle\<close> catches whatever its reads, the provisioning and the load throw, so it
  always returns; a sheet whose configuration can be read is therefore always processed
  to the end, and the loop goes on to the next sheet.
\<close>

lemma ingestCycle_returns: "fst (ingestCycle F sheets su processID sheetID w) = Inr ()"
  unfolding ingestCycle_def tryCatch_def consoleLog_def
  by (auto split: prod.splits sum.splits)

lemma checkSetup_not_None_True: "checkSetup sheets sheetID \<noteq> Inr (None, True)"
  by (auto simp: checkSetup_def Let_def split: sum.splits prod.splits if_splits)

lemma processSheet_returns:
  assumes "checkSetup sheets (fst sheet) = Inr r"
  shows "fst (processSheet F sheets env processID sheet w) = Inr ()"
proof -
  obtain sheetId sheetName where s: "sheet = (sheetId, sheetName)" by (cases sheet)
  obtain su v where r: "r = (su, v)" by (cases r)
  from assms s r have c: "checkSetup sheets sheetId = Inr (su, v)" by simp
  show ?thesis
  proof (cases v)
    case False
    with c s show ?thesis
      by (simp add: processSheet_def andThen_def consoleLog_def)
  next
    case True
    with c checkSetup_not_None_True [of sheets sheetId] obtain cfg where "su = Some cfg"
      by (cases su) auto
    with c s True show ?thesis
      using ingestCycle_returns [of F sheets cfg processID sheetId]
      by (auto simp: processSheet_def andThen_def consoleLog_def split: prod.splits sum.splits)
  qed
qed

lemma processSheet_throws:
  assumes "checkSetup sheets sheetId = Inl e"
  shows "processSheet F sheets env processID (sheetId, sheetName) w =
           (Inl e, w\<lparr>console := console w @ [CheckingSheet sheetName sheetId]\<rparr>)"
  using assms by (simp add: processSheet_def andThen_def consoleLog_def)

lemma forEachSheet_returns:
  assumes "list_all (\<lambda>sheet. \<exists>r. checkSetup sheets (fst sheet) = Inr r) sheetsList"
  shows "fst (forEachSheet F sheets env processID sheetsList w) = Inr ()"
  using assms
proof (induction sheetsList arbitrary: w)
  case Nil
  then show ?case by (simp add: succeed_def)
next
  case (Cons sheet rest)
  then obtain r where "checkSetup sheets (fst sheet) = Inr r" by auto
  from processSheet_returns [OF this, of F env processID w]
  obtain w1 where "processSheet F sheets env processID sheet w = (Inr (), w1)"
    by (cases "processSheet F sheets env processID sheet w") auto
  with Cons show ?case by (simp add: andThen_ok)
qed

text \<open>
  C3. The claim does not hold of the code for a failure of the configuration read:
  \<open>checkSetup\<close> throws the error again, and the only handler between it and the loop over
  the sheets is the one around the whole loop. With the drive listing \<open>broken\<close>, whose
  named ranges cannot be read, before \<open>good\<close>, which is valid and due, the cycle prints the
  error and ends: \<open>good\<close> is never checked and no request reaches the database.
\<close>

theorem runCycle_aborts_on_config_read_failure:
  "filesList demoSheets = Inr [(''broken'', ''Broken''), (''good'', ''Rates'')] \<and>
   checkSetup demoSheets ''broken'' = Inl TransportFailure \<and>
   checkSetup demoSheets ''good'' = Inr (Some dailySetup, True) \<and>
   shouldTriggerIngestion berlinWinter dailySetup (Finite 1704150000000) \<and>
   fst (runCycle noFault demoSheets berlinWinter 1704150000000 emptyWorld) = Inr () \<and>
   console (snd (runCycle noFault demoSheets berlinWinter 1704150000000 emptyWorld)) =
     [CheckingSheet ''Broken'' ''broken'', ErrorOccurred TransportFailure,
      WaitingForNextCycle] \<and>
   sent (snd (runCycle noFault demoSheets berlinWinter 1704150000000 emptyWorld)) = []"
  by code_simp

end
